theory Spec2Isabelle
  imports Complex_Main "HOL-Library.Sublist"
begin

section \<open>JavaScript values\<close>

text \<open>
  The task scripts (tasks/actions.js, tasks/admin.js, tasks/deploy.js) handle command-line
  arguments, environment variables and JSON read from files. A JavaScript value is one of the
  JSON shapes, \<open>undefined\<close>, or a built-in function or object inherited from a prototype
  (\<open>JNative\<close>, named by the property it is reached through). A number is a double: not a
  number, an infinity, or a finite value, which is a rational; the scripts only compare
  numbers and test them for integrality, they never compute with them.
\<close>

datatype jsnum = NaN | PosInf | NegInf | Fin rat

datatype jsval =
    JUndefined
  | JNull
  | JBool bool
  | JNum jsnum
  | JStr string
  | JArr "jsval list"
  | JObj "(string \<times> jsval) list"
  | JNative string

text \<open>Errors thrown by the scripts, one constructor per \<open>throw\<close> of the source, and the
  errors of the runtime and of the external libraries.\<close>

datatype hint = ParamsField string | EnvVar string

datatype error =
    InvalidContractAddress jsval      \<comment> \<open>\<open>Invalid contract address: ${explicit}\<close>\<close>
  | ZeroContractAddress               \<comment> \<open>\<open>Contract address must not be the zero address\<close> (actions.js)\<close>
  | ZeroContractAddressAdmin          \<comment> \<open>\<open>Contract address must not be zero\<close> (admin.js)\<close>
  | UnableToDetermine                 \<comment> \<open>\<open>Unable to determine proxy address. Provide --contract or set JPYC_PROXY.\<close>\<close>
  | InvalidAddress string jsval       \<comment> \<open>\<open>Invalid ${label} address: ${value}\<close>\<close>
  | ZeroAddress string                \<comment> \<open>\<open>${label} address must not be zero\<close>\<close>
  | DecimalsRange                     \<comment> \<open>\<open>decimals must be an integer between 0 and 255\<close>\<close>
  | AllowanceNegative                 \<comment> \<open>\<open>Allowance amount must be non-negative\<close>\<close>
  | Missing hint                      \<comment> \<open>\<open>Missing ${hint}\<close>\<close>
  | InvalidParamAddress string string \<comment> \<open>\<open>Invalid address for ${key}: ${candidate}\<close>\<close>
  | ZeroParamAddress string           \<comment> \<open>\<open>Address for ${key} must not be zero\<close>\<close>
  | UnsupportedRole string            \<comment> \<open>\<open>Unsupported role: ${role}. Supported roles: ...\<close>\<close>
  | NoSigner                          \<comment> \<open>\<open>No signer available for deployment\<close>\<close>
  | CannotSwitchNetwork string        \<comment> \<open>\<open>Network positional argument provided (...)\<close>\<close>
  | TypeError string                  \<comment> \<open>thrown by the JavaScript runtime\<close>
  | SyntaxError string                \<comment> \<open>thrown by \<open>JSON.parse\<close>\<close>
  | IOError string                    \<comment> \<open>thrown by \<open>fs\<close>\<close>
  | LibraryError string               \<comment> \<open>thrown by ethers, the upgrades plugin or the chain\<close>

subsection \<open>Truthiness, strings\<close>

fun truthy :: "jsval \<Rightarrow> bool" where
  "truthy JUndefined = False"
| "truthy JNull = False"
| "truthy (JBool b) = b"
| "truthy (JNum NaN) = False"
| "truthy (JNum (Fin q)) = (q \<noteq> 0)"
| "truthy (JNum _) = True"
| "truthy (JStr s) = (s \<noteq> [])"
| "truthy (JArr _) = True"
| "truthy (JObj _) = True"
| "truthy (JNative _) = True"

text \<open>\<open>a || b\<close>.\<close>

definition js_or :: "jsval \<Rightarrow> jsval \<Rightarrow> jsval" where
  "js_or a b = (if truthy a then a else b)"

text \<open>\<open>a ?? b\<close>.\<close>

definition js_nullish :: "jsval \<Rightarrow> jsval \<Rightarrow> jsval" where
  "js_nullish a b = (if a = JUndefined \<or> a = JNull then b else a)"

text \<open>
  Lower-casing of the ASCII letters. The scripts lower-case a checksummed address only to
  compare the result with the zero address, which is made of \<open>0\<close> and \<open>x\<close>: no
  character but \<open>X\<close> lower-cases to \<open>x\<close> and none but \<open>0\<close> to \<open>0\<close>, so this mapping
  decides that comparison as \<open>String.prototype.toLowerCase\<close> does. Where the result is used
  otherwise (the role of jpyc:update-roles), and for \<open>String.prototype.trim\<close>, whose white
  space is Unicode's, the functions of the runtime are taken (\<open>String_toLowerCase\<close> and
  \<open>String_trim\<close> below); \<open>ascii_trim\<close> is the trimming of the six ASCII white-space
  characters, used to run the model on ASCII inputs.
\<close>

definition lower_char :: "char \<Rightarrow> char" where
  "lower_char c =
     (case map_of (zip ''ABCDEFGHIJKLMNOPQRSTUVWXYZ'' ''abcdefghijklmnopqrstuvwxyz'') c of
        Some d \<Rightarrow> d
      | None \<Rightarrow> c)"

definition toLowerCase :: "string \<Rightarrow> string" where
  "toLowerCase s = map lower_char s"

definition is_space :: "char \<Rightarrow> bool" where
  "is_space c = (c \<in> set [CHR 0x09, CHR 0x0A, CHR 0x0B, CHR 0x0C, CHR 0x0D, CHR '' ''])"

definition ascii_trim :: "string \<Rightarrow> string" where
  "ascii_trim s = rev (dropWhile is_space (rev (dropWhile is_space s)))"

subsection \<open>Property reads\<close>

text \<open>The property names of \<open>Object.prototype\<close>, which every plain object inherits.\<close>

definition Object_prototype_keys :: "string list" where
  "Object_prototype_keys =
     [''constructor'', ''__defineGetter__'', ''__defineSetter__'', ''hasOwnProperty'',
      ''__lookupGetter__'', ''__lookupSetter__'', ''isPrototypeOf'', ''propertyIsEnumerable'',
      ''toString'', ''valueOf'', ''__proto__'', ''toLocaleString'']"

text \<open>\<open>obj[key]\<close> on a plain object: the own property, else the inherited one, else
  \<open>undefined\<close>.\<close>

definition obj_get :: "(string \<times> jsval) list \<Rightarrow> string \<Rightarrow> jsval" where
  "obj_get kvs k =
     (case map_of kvs k of
        Some v \<Rightarrow> v
      | None \<Rightarrow> if k \<in> set Object_prototype_keys then JNative k else JUndefined)"

text \<open>\<open>value[key]\<close> on any value, for the keys the scripts read from parsed JSON
  (\<open>proxy\<close> and the nine parameter fields): none of them is a built-in property of a string,
  number, boolean or array, so there the read is \<open>undefined\<close>; on \<open>null\<close> and
  \<open>undefined\<close> the read throws.\<close>

fun js_get :: "jsval \<Rightarrow> string \<Rightarrow> error + jsval" where
  "js_get JUndefined k = Inl (TypeError ''Cannot read properties of undefined'')"
| "js_get JNull k = Inl (TypeError ''Cannot read properties of null'')"
| "js_get (JObj kvs) k = Inr (obj_get kvs k)"
| "js_get _ k = Inr JUndefined"

section \<open>The capability surface\<close>

text \<open>
  Everything the scripts delegate to Node.js, Hardhat and ethers is a parameter of the model.
  \<open>node\<close> is the part of the Node.js runtime the scripts use; \<open>deployments_dir\<close> is the
  value of \<open>path.join(__dirname, '..', 'deployments')\<close>, the same in the three scripts, which
  live in one directory. \<open>String_trim\<close> and \<open>String_toLowerCase\<close> are
  \<open>String.prototype.trim\<close> and \<open>String.prototype.toLowerCase\<close>; \<open>path_dirname\<close> gives
  the directory a path lies in.
\<close>

record node =
  String_trim :: "string \<Rightarrow> string"
  String_toLowerCase :: "string \<Rightarrow> string"
  StringToNumber :: "string \<Rightarrow> jsnum"
  NumberToString :: "jsnum \<Rightarrow> string"
  JSON_parse :: "string \<Rightarrow> error + jsval"
  JSON_stringify :: "jsval \<Rightarrow> string"
  path_join :: "string \<Rightarrow> string \<Rightarrow> string"
  path_resolve :: "string \<Rightarrow> string"
  path_dirname :: "string \<Rightarrow> string"
  deployments_dir :: string
  Date_toISOString :: "nat \<Rightarrow> string"

text \<open>The file system: regular files with their contents, and directories. Reading a path
  that is not a regular file throws. Writing a file throws when the path is a directory or
  the directory it lies in does not exist, and leaves the file system as it was; other
  refusals of the host (permissions, a full disk) are not modelled.\<close>

record filesystem =
  files :: "string \<rightharpoonup> string"
  dirs :: "string set"

definition existsSync :: "filesystem \<Rightarrow> string \<Rightarrow> bool" where
  "existsSync fs p = (files fs p \<noteq> None \<or> p \<in> dirs fs)"

definition readFileSync :: "filesystem \<Rightarrow> string \<Rightarrow> error + string" where
  "readFileSync fs p = (case files fs p of Some c \<Rightarrow> Inr c | None \<Rightarrow> Inl (IOError p))"

definition writeFileSync :: "node \<Rightarrow> filesystem \<Rightarrow> string \<Rightarrow> string \<Rightarrow> error + filesystem" where
  "writeFileSync rt fs p c =
     (if p \<in> dirs fs \<or> path_dirname rt p \<notin> dirs fs then Inl (IOError p)
      else Inr (fs\<lparr>files := (files fs)(p \<mapsto> c)\<rparr>))"

definition mkdirSync :: "filesystem \<Rightarrow> string \<Rightarrow> filesystem" where
  "mkdirSync fs p = fs\<lparr>dirs := insert p (dirs fs)\<rparr>"

text \<open>\<open>process.env[key]\<close>: a string, or \<open>undefined\<close>.\<close>

definition env_get :: "(string \<rightharpoonup> string) \<Rightarrow> string \<Rightarrow> jsval" where
  "env_get env k = (case env k of Some v \<Rightarrow> JStr v | None \<Rightarrow> JUndefined)"

text \<open>A contract object returned by \<open>getContractAt\<close>: its address, the names of the
  functions it exposes, and the answer of \<open>token.signer.getAddress()\<close>.\<close>

record contract =
  c_address :: string
  c_methods :: "string list"
  c_signer :: "error + string"

datatype arg = AddrArg string | NumArg int

datatype call = Call string string "arg list"

text \<open>The handle of a deployed proxy (\<open>proxy.address\<close>, and the transaction hash that
  \<open>proxy.deployTransaction.wait()\<close> yields or the error it throws), and of an upgraded one
  (\<open>upgraded.deployTransaction\<close> may be absent).\<close>

record proxy_handle =
  p_address :: string
  p_wait :: "error + string"

record upgraded_handle =
  u_wait :: "(error + string) option"

text \<open>
  The Hardhat runtime environment \<open>hre\<close>. \<open>send\<close> stands for a contract method call followed
  by \<open>tx.wait()\<close> and yields the transaction hash of the receipt. \<open>getImplementationAddress\<close>
  depends on the chain: its first argument is the number of upgrades performed so far.
  \<open>changeNetwork\<close> is present only when a plugin provides it, and yields the environment of
  the network switched to.
\<close>

record hre =
  network_name :: string
  isAddress :: "jsval \<Rightarrow> bool"
  getAddress :: "jsval \<Rightarrow> string"
  BigNumber_from :: "jsval \<Rightarrow> error + int"
  parseUnits :: "jsval \<Rightarrow> nat \<Rightarrow> error + int"
  getContractAt :: "string \<Rightarrow> string \<Rightarrow> error + contract"
  send :: "call \<Rightarrow> error + string"
  getSigners :: "error + string list"
  getContractFactory :: "string \<Rightarrow> error + string"
  deployProxy :: "string \<Rightarrow> jsval list \<Rightarrow> error + proxy_handle"
  upgradeProxy :: "string \<Rightarrow> string \<Rightarrow> error + upgraded_handle"
  getImplementationAddress :: "nat \<Rightarrow> string \<Rightarrow> error + string"
  has_verify_task :: bool
  run_verify :: "string \<Rightarrow> error + unit"
  changeNetwork :: "(string \<Rightarrow> error + string) option"

section \<open>tasks/actions.js\<close>

definition ZERO_ADDRESS :: string where
  "ZERO_ADDRESS = ''0x0000000000000000000000000000000000000000''"

definition DEFAULT_DECIMALS :: jsval where
  "DEFAULT_DECIMALS = JNum (Fin 18)"

definition latest_name :: "string \<Rightarrow> string" where
  "latest_name networkName = networkName @ ''-latest.json''"

function resolveContractAddress ::
  "node \<Rightarrow> hre \<Rightarrow> (string \<rightharpoonup> string) \<Rightarrow> filesystem \<Rightarrow> jsval \<Rightarrow> error + string" where
  "resolveContractAddress rt h env fs explicit =
     (if truthy explicit then
        (if \<not> isAddress h explicit then Inl (InvalidContractAddress explicit)
         else let checksummed = getAddress h explicit in
           if toLowerCase checksummed = ZERO_ADDRESS then Inl ZeroContractAddress
           else Inr checksummed)
      else
        let fromEnv = js_or (env_get env ''JPYC_PROXY'') (env_get env ''JPYC_CONTRACT_ADDRESS'') in
        if truthy fromEnv then resolveContractAddress rt h env fs fromEnv
        else
          let latestFile = path_join rt (deployments_dir rt) (latest_name (network_name h)) in
          if existsSync fs latestFile then
            (case readFileSync fs latestFile of
               Inl e \<Rightarrow> Inl e
             | Inr contents \<Rightarrow>
                (case JSON_parse rt contents of
                   Inl e \<Rightarrow> Inl e
                 | Inr parsed \<Rightarrow>
                    if truthy parsed then
                      (case js_get parsed ''proxy'' of
                         Inl e \<Rightarrow> Inl e
                       | Inr p \<Rightarrow>
                          if truthy p then resolveContractAddress rt h env fs p
                          else Inl UnableToDetermine)
                    else Inl UnableToDetermine))
          else Inl UnableToDetermine)"
  by pat_completeness auto
termination
  by (relation "measure (\<lambda>(rt, h, env, fs, explicit). if truthy explicit then 0 else 1)") auto

declare resolveContractAddress.simps [simp del]

definition normalizeAddress :: "hre \<Rightarrow> jsval \<Rightarrow> string \<Rightarrow> error + string" where
  "normalizeAddress h v label =
     (if \<not> isAddress h v then Inl (InvalidAddress label v)
      else let checksummed = getAddress h v in
        if toLowerCase checksummed = ZERO_ADDRESS then Inl (ZeroAddress label)
        else Inr checksummed)"

subsection \<open>Conversions\<close>

text \<open>\<open>Number.isInteger(n)\<close>, \<open>n < k\<close> and \<open>n > k\<close> for a number \<open>n\<close> and a finite
  constant \<open>k\<close>: every comparison with \<open>NaN\<close> is false.\<close>

fun isInteger :: "jsnum \<Rightarrow> bool" where
  "isInteger (Fin q) = (of_int \<lfloor>q\<rfloor> = q)"
| "isInteger _ = False"

fun js_lt :: "jsnum \<Rightarrow> rat \<Rightarrow> bool" where
  "js_lt (Fin q) k = (q < k)"
| "js_lt NegInf k = True"
| "js_lt _ k = False"

fun js_gt :: "jsnum \<Rightarrow> rat \<Rightarrow> bool" where
  "js_gt (Fin q) k = (q > k)"
| "js_gt PosInf k = True"
| "js_gt _ k = False"

fun join_strs :: "string list \<Rightarrow> string" where
  "join_strs [] = []"
| "join_strs [s] = s"
| "join_strs (s # t # ss) = s @ '','' @ join_strs (t # ss)"

fun collect :: "(error + 'a) list \<Rightarrow> error + 'a list" where
  "collect [] = Inr []"
| "collect (Inl e # rs) = Inl e"
| "collect (Inr x # rs) = (case collect rs of Inl e \<Rightarrow> Inl e | Inr xs \<Rightarrow> Inr (x # xs))"

text \<open>
  \<open>String(value)\<close>. An array joins the conversions of its elements (\<open>null\<close> and
  \<open>undefined\<close> elements give the empty string). A plain object gives \<open>[object Object]\<close>
  through \<open>Object.prototype.toString\<close>, unless it has an own property \<open>toString\<close>:
  parsed JSON is never callable, so the conversion then finds no usable method and throws.
\<close>

fun ToString :: "node \<Rightarrow> jsval \<Rightarrow> error + string" where
  "ToString rt JUndefined = Inr ''undefined''"
| "ToString rt JNull = Inr ''null''"
| "ToString rt (JBool b) = Inr (if b then ''true'' else ''false'')"
| "ToString rt (JNum n) = Inr (NumberToString rt n)"
| "ToString rt (JStr s) = Inr s"
| "ToString rt (JArr xs) =
     (case collect (map (\<lambda>x. if x = JUndefined \<or> x = JNull then Inr [] else ToString rt x) xs) of
        Inl e \<Rightarrow> Inl e
      | Inr ss \<Rightarrow> Inr (join_strs ss))"
| "ToString rt (JObj kvs) =
     (if map_of kvs ''toString'' \<noteq> None
      then Inl (TypeError ''Cannot convert object to primitive value'')
      else Inr ''[object Object]'')"
| "ToString rt (JNative k) =
     Inr (if k = ''__proto__'' then ''[object Object]''
          else ''function '' @ (if k = ''constructor'' then ''Object'' else k)
               @ ''() { [native code] }'')"

text \<open>\<open>Number(value)\<close>: an object or array converts through its string.\<close>

fun ToNumber :: "node \<Rightarrow> jsval \<Rightarrow> error + jsnum" where
  "ToNumber rt JUndefined = Inr NaN"
| "ToNumber rt JNull = Inr (Fin 0)"
| "ToNumber rt (JBool b) = Inr (Fin (if b then 1 else 0))"
| "ToNumber rt (JNum n) = Inr n"
| "ToNumber rt (JStr s) = Inr (StringToNumber rt s)"
| "ToNumber rt v =
     (case ToString rt v of Inl e \<Rightarrow> Inl e | Inr s \<Rightarrow> Inr (StringToNumber rt s))"

subsection \<open>Amounts and the three action commands\<close>

text \<open>The test \<open>!Number.isInteger(d) || d < 0 || d > 255\<close> of normalizeAmount and
  loadParams.\<close>

definition decimals_rejected :: "jsnum \<Rightarrow> bool" where
  "decimals_rejected d = (\<not> isInteger d \<or> js_lt d 0 \<or> js_gt d 255)"

fun to_nat :: "jsnum \<Rightarrow> nat" where
  "to_nat (Fin q) = nat \<lfloor>q\<rfloor>"
| "to_nat _ = 0"

definition normalizeAmount :: "node \<Rightarrow> hre \<Rightarrow> jsval \<Rightarrow> jsval \<Rightarrow> bool \<Rightarrow> error + int" where
  "normalizeAmount rt h amount decimals raw =
     (if raw then BigNumber_from h amount
      else
        (case ToNumber rt (js_nullish decimals DEFAULT_DECIMALS) of
           Inl e \<Rightarrow> Inl e
         | Inr parsedDecimals \<Rightarrow>
            if decimals_rejected parsedDecimals then Inl DecimalsRange
            else parseUnits h amount (to_nat parsedDecimals)))"

definition getTokenContract ::
  "node \<Rightarrow> hre \<Rightarrow> (string \<rightharpoonup> string) \<Rightarrow> filesystem \<Rightarrow> jsval \<Rightarrow> error + contract" where
  "getTokenContract rt h env fs contractAddress =
     (case resolveContractAddress rt h env fs contractAddress of
        Inl e \<Rightarrow> Inl e
      | Inr address \<Rightarrow> getContractAt h ''FiatTokenV2'' address)"

text \<open>
  Calling \<open>token[m](args)\<close>: when the contract object has no function of that name the
  call throws before anything is sent; otherwise the call is made, and the call and
  \<open>tx.wait()\<close> yield the receipt or throw. A command yields the list of contract calls it
  made and its result. Console output is not modelled.
\<close>

definition invoke :: "hre \<Rightarrow> contract \<Rightarrow> string \<Rightarrow> arg list \<Rightarrow> call list \<times> (error + string)" where
  "invoke h token m args =
     (if m \<in> set (c_methods token)
      then ([Call (c_address token) m args], send h (Call (c_address token) m args))
      else ([], Inl (TypeError (m @ '' is not a function''))))"

definition jpyc_mint ::
  "node \<Rightarrow> hre \<Rightarrow> (string \<rightharpoonup> string) \<Rightarrow> filesystem \<Rightarrow>
   jsval \<Rightarrow> jsval \<Rightarrow> jsval \<Rightarrow> jsval \<Rightarrow> bool \<Rightarrow> call list \<times> (error + string)" where
  "jpyc_mint rt h env fs contract to amount decimals raw =
     (case getTokenContract rt h env fs contract of
        Inl e \<Rightarrow> ([], Inl e)
      | Inr token \<Rightarrow>
         (case normalizeAddress h to ''recipient'' of
            Inl e \<Rightarrow> ([], Inl e)
          | Inr recipient \<Rightarrow>
             (case normalizeAmount rt h amount decimals raw of
                Inl e \<Rightarrow> ([], Inl e)
              | Inr val \<Rightarrow> invoke h token ''mint'' [AddrArg recipient, NumArg val])))"

definition jpyc_transfer ::
  "node \<Rightarrow> hre \<Rightarrow> (string \<rightharpoonup> string) \<Rightarrow> filesystem \<Rightarrow>
   jsval \<Rightarrow> jsval \<Rightarrow> jsval \<Rightarrow> jsval \<Rightarrow> bool \<Rightarrow> call list \<times> (error + string)" where
  "jpyc_transfer rt h env fs contract to amount decimals raw =
     (case getTokenContract rt h env fs contract of
        Inl e \<Rightarrow> ([], Inl e)
      | Inr token \<Rightarrow>
         (case normalizeAddress h to ''recipient'' of
            Inl e \<Rightarrow> ([], Inl e)
          | Inr recipient \<Rightarrow>
             (case normalizeAmount rt h amount decimals raw of
                Inl e \<Rightarrow> ([], Inl e)
              | Inr val \<Rightarrow> invoke h token ''transfer'' [AddrArg recipient, NumArg val])))"

text \<open>jpyc:burn reads \<open>token.signer.getAddress()\<close> for its log line before it calls
  \<open>burn\<close>.\<close>

definition jpyc_burn ::
  "node \<Rightarrow> hre \<Rightarrow> (string \<rightharpoonup> string) \<Rightarrow> filesystem \<Rightarrow>
   jsval \<Rightarrow> jsval \<Rightarrow> jsval \<Rightarrow> bool \<Rightarrow> call list \<times> (error + string)" where
  "jpyc_burn rt h env fs contract amount decimals raw =
     (case getTokenContract rt h env fs contract of
        Inl e \<Rightarrow> ([], Inl e)
      | Inr token \<Rightarrow>
         (case normalizeAmount rt h amount decimals raw of
            Inl e \<Rightarrow> ([], Inl e)
          | Inr val \<Rightarrow>
             (case c_signer token of
                Inl e \<Rightarrow> ([], Inl e)
              | Inr signer \<Rightarrow> invoke h token ''burn'' [NumArg val])))"

section \<open>tasks/admin.js\<close>

function admin_resolveContractAddress ::
  "node \<Rightarrow> hre \<Rightarrow> (string \<rightharpoonup> string) \<Rightarrow> filesystem \<Rightarrow> jsval \<Rightarrow> error + string" where
  "admin_resolveContractAddress rt h env fs explicit =
     (if truthy explicit then
        (if \<not> isAddress h explicit then Inl (InvalidContractAddress explicit)
         else let checksummed = getAddress h explicit in
           if toLowerCase checksummed = ZERO_ADDRESS then Inl ZeroContractAddressAdmin
           else Inr checksummed)
      else
        let fromEnv = js_or (env_get env ''JPYC_PROXY'') (env_get env ''JPYC_CONTRACT_ADDRESS'') in
        if truthy fromEnv then admin_resolveContractAddress rt h env fs fromEnv
        else
          let latestFile = path_join rt (deployments_dir rt) (latest_name (network_name h)) in
          if existsSync fs latestFile then
            (case readFileSync fs latestFile of
               Inl e \<Rightarrow> Inl e
             | Inr contents \<Rightarrow>
                (case JSON_parse rt contents of
                   Inl e \<Rightarrow> Inl e
                 | Inr parsed \<Rightarrow>
                    if truthy parsed then
                      (case js_get parsed ''proxy'' of
                         Inl e \<Rightarrow> Inl e
                       | Inr p \<Rightarrow>
                          if truthy p then admin_resolveContractAddress rt h env fs p
                          else Inl UnableToDetermine)
                    else Inl UnableToDetermine))
          else Inl UnableToDetermine)"
  by pat_completeness auto
termination
  by (relation "measure (\<lambda>(rt, h, env, fs, explicit). if truthy explicit then 0 else 1)") auto

declare admin_resolveContractAddress.simps [simp del]

definition admin_normalizeAddress :: "hre \<Rightarrow> jsval \<Rightarrow> string \<Rightarrow> error + string" where
  "admin_normalizeAddress h v label =
     (if \<not> isAddress h v then Inl (InvalidAddress label v)
      else let checksummed = getAddress h v in
        if toLowerCase checksummed = ZERO_ADDRESS then Inl (ZeroAddress label)
        else Inr checksummed)"

definition admin_getTokenContract ::
  "node \<Rightarrow> hre \<Rightarrow> (string \<rightharpoonup> string) \<Rightarrow> filesystem \<Rightarrow> jsval \<Rightarrow> error + contract" where
  "admin_getTokenContract rt h env fs contractAddress =
     (case admin_resolveContractAddress rt h env fs contractAddress of
        Inl e \<Rightarrow> Inl e
      | Inr address \<Rightarrow> getContractAt h ''FiatTokenV2'' address)"

definition admin_normalizeAmount :: "hre \<Rightarrow> jsval \<Rightarrow> error + int" where
  "admin_normalizeAmount h amount =
     (case BigNumber_from h amount of
        Inl e \<Rightarrow> Inl e
      | Inr val \<Rightarrow> if val < 0 then Inl AllowanceNegative else Inr val)"

definition jpyc_configure_minter ::
  "node \<Rightarrow> hre \<Rightarrow> (string \<rightharpoonup> string) \<Rightarrow> filesystem \<Rightarrow>
   jsval \<Rightarrow> jsval \<Rightarrow> jsval \<Rightarrow> call list \<times> (error + string)" where
  "jpyc_configure_minter rt h env fs contract minter allowance =
     (case admin_getTokenContract rt h env fs contract of
        Inl e \<Rightarrow> ([], Inl e)
      | Inr token \<Rightarrow>
         (case admin_normalizeAddress h minter ''minter'' of
            Inl e \<Rightarrow> ([], Inl e)
          | Inr minterAddress \<Rightarrow>
             (case admin_normalizeAmount h allowance of
                Inl e \<Rightarrow> ([], Inl e)
              | Inr amount \<Rightarrow>
                 invoke h token ''configureMinter'' [AddrArg minterAddress, NumArg amount])))"

definition jpyc_remove_minter ::
  "node \<Rightarrow> hre \<Rightarrow> (string \<rightharpoonup> string) \<Rightarrow> filesystem \<Rightarrow>
   jsval \<Rightarrow> jsval \<Rightarrow> call list \<times> (error + string)" where
  "jpyc_remove_minter rt h env fs contract minter =
     (case admin_getTokenContract rt h env fs contract of
        Inl e \<Rightarrow> ([], Inl e)
      | Inr token \<Rightarrow>
         (case admin_normalizeAddress h minter ''minter'' of
            Inl e \<Rightarrow> ([], Inl e)
          | Inr minterAddress \<Rightarrow> invoke h token ''removeMinter'' [AddrArg minterAddress]))"

definition roleMap :: "(string \<times> jsval) list" where
  "roleMap =
     [(''pauser'', JStr ''updatePauser''),
      (''blocklister'', JStr ''updateBlocklister''),
      (''rescuer'', JStr ''updateRescuer''),
      (''allowlister'', JStr ''updateAllowlister''),
      (''minteradmin'', JStr ''updateMinterAdmin''),
      (''owner'', JStr ''transferOwnership'')]"

text \<open>
  jpyc:update-roles. \<open>roleMap[normalizedRole]\<close> is a property read on an object literal, so
  it also finds what the literal inherits; \<open>token[method]\<close> converts \<open>method\<close> to a
  property key.
\<close>

definition jpyc_update_roles ::
  "node \<Rightarrow> hre \<Rightarrow> (string \<rightharpoonup> string) \<Rightarrow> filesystem \<Rightarrow>
   jsval \<Rightarrow> string \<Rightarrow> jsval \<Rightarrow> call list \<times> (error + string)" where
  "jpyc_update_roles rt h env fs contract role address =
     (case admin_getTokenContract rt h env fs contract of
        Inl e \<Rightarrow> ([], Inl e)
      | Inr token \<Rightarrow>
         (case admin_normalizeAddress h address ''role'' of
            Inl e \<Rightarrow> ([], Inl e)
          | Inr newAddress \<Rightarrow>
             (let normalizedRole = String_toLowerCase rt (String_trim rt role);
                  method = obj_get roleMap normalizedRole
              in if \<not> truthy method then ([], Inl (UnsupportedRole role))
                 else
                   (case ToString rt method of
                      Inl e \<Rightarrow> ([], Inl e)
                    | Inr key \<Rightarrow> invoke h token key [AddrArg newAddress]))))"

section \<open>tasks/deploy.js\<close>

definition REQUIRED_FIELDS :: "string list" where
  "REQUIRED_FIELDS =
     [''name'', ''symbol'', ''currency'', ''decimals'', ''minterAdmin'', ''pauser'',
      ''blocklister'', ''rescuer'', ''owner'']"

definition ENV_KEYS :: "(string \<times> string) list" where
  "ENV_KEYS =
     [(''name'', ''TOKEN_NAME''),
      (''symbol'', ''TOKEN_SYMBOL''),
      (''currency'', ''TOKEN_CURRENCY''),
      (''decimals'', ''TOKEN_DECIMALS''),
      (''minterAdmin'', ''JPYC_MINTER_ADMIN''),
      (''pauser'', ''JPYC_PAUSER''),
      (''blocklister'', ''JPYC_BLOCKLISTER''),
      (''rescuer'', ''JPYC_RESCUER''),
      (''owner'', ''JPYC_OWNER'')]"

definition readConfigFile :: "node \<Rightarrow> filesystem \<Rightarrow> string \<Rightarrow> error + jsval" where
  "readConfigFile rt fs rawPath =
     (case readFileSync fs (path_resolve rt rawPath) of
        Inl e \<Rightarrow> Inl e
      | Inr contents \<Rightarrow> JSON_parse rt contents)"

definition readFromEnv :: "(string \<rightharpoonup> string) \<Rightarrow> jsval" where
  "readFromEnv env =
     JObj (List.map_filter
            (\<lambda>(field, envKey). case env envKey of Some v \<Rightarrow> Some (field, JStr v) | None \<Rightarrow> None)
            ENV_KEYS)"

text \<open>The hint of the \<open>Missing\<close> error: the field of the file, or the environment variable
  \<open>ENV_KEYS[field]\<close>.\<close>

definition missing_hint :: "bool \<Rightarrow> string \<Rightarrow> hint" where
  "missing_hint fromFile field =
     (if fromFile then ParamsField field
      else EnvVar (case map_of ENV_KEYS field of Some k \<Rightarrow> k | None \<Rightarrow> ''undefined''))"

text \<open>The body of \<open>REQUIRED_FIELDS.forEach\<close>.\<close>

definition check_required :: "node \<Rightarrow> bool \<Rightarrow> jsval \<Rightarrow> string \<Rightarrow> error + unit" where
  "check_required rt fromFile source field =
     (case js_get source field of
        Inl e \<Rightarrow> Inl e
      | Inr val \<Rightarrow>
         if val = JUndefined \<or> val = JNull then Inl (Missing (missing_hint fromFile field))
         else
           (case ToString rt val of
              Inl e \<Rightarrow> Inl e
            | Inr s \<Rightarrow>
               if String_trim rt s = [] then Inl (Missing (missing_hint fromFile field))
               else Inr ()))"

fun forEach :: "('a \<Rightarrow> error + unit) \<Rightarrow> 'a list \<Rightarrow> error + unit" where
  "forEach f [] = Inr ()"
| "forEach f (x # xs) = (case f x of Inl e \<Rightarrow> Inl e | Inr _ \<Rightarrow> forEach f xs)"

text \<open>\<open>{ ...source }\<close>: the own properties of a plain object. (The spread of an array or a
  string has index keys; loadParams never spreads one, since \<open>source['name']\<close> is
  \<open>undefined\<close> on them.) \<open>obj[key] = v\<close> keeps the position of an existing key.\<close>

fun own_props :: "jsval \<Rightarrow> (string \<times> jsval) list" where
  "own_props (JObj kvs) = kvs"
| "own_props _ = []"

fun obj_set :: "(string \<times> jsval) list \<Rightarrow> string \<Rightarrow> jsval \<Rightarrow> (string \<times> jsval) list" where
  "obj_set [] k v = [(k, v)]"
| "obj_set ((k', v') # kvs) k v =
     (if k' = k then (k, v) # kvs else (k', v') # obj_set kvs k v)"

text \<open>The loop over the five address fields, which rewrites each field to its checksummed
  form.\<close>

fun normalize_addresses ::
  "node \<Rightarrow> hre \<Rightarrow> (string \<times> jsval) list \<Rightarrow> string list \<Rightarrow> error + (string \<times> jsval) list" where
  "normalize_addresses rt h normalized [] = Inr normalized"
| "normalize_addresses rt h normalized (key # keys) =
     (case ToString rt (obj_get normalized key) of
        Inl e \<Rightarrow> Inl e
      | Inr s \<Rightarrow>
         (let candidate = String_trim rt s in
          if \<not> isAddress h (JStr candidate) then Inl (InvalidParamAddress key candidate)
          else let checksummed = getAddress h (JStr candidate) in
            if toLowerCase checksummed = ZERO_ADDRESS then Inl (ZeroParamAddress key)
            else normalize_addresses rt h (obj_set normalized key (JStr checksummed)) keys))"

text \<open>\<open>normalized[k] = String(normalized[k]).trim()\<close>.\<close>

definition trim_field ::
  "node \<Rightarrow> (string \<times> jsval) list \<Rightarrow> string \<Rightarrow> error + (string \<times> jsval) list" where
  "trim_field rt normalized k =
     (case ToString rt (obj_get normalized k) of
        Inl e \<Rightarrow> Inl e
      | Inr s \<Rightarrow> Inr (obj_set normalized k (JStr (String_trim rt s))))"

definition resolve_source ::
  "node \<Rightarrow> (string \<rightharpoonup> string) \<Rightarrow> filesystem \<Rightarrow> jsval \<Rightarrow> error + jsval" where
  "resolve_source rt env fs paramsPath =
     (if truthy paramsPath
      then (case paramsPath of
              JStr p \<Rightarrow> readConfigFile rt fs p
            | _ \<Rightarrow> Inl (TypeError ''The path argument must be of type string''))
      else Inr (readFromEnv env))"

definition loadParams ::
  "node \<Rightarrow> hre \<Rightarrow> (string \<rightharpoonup> string) \<Rightarrow> filesystem \<Rightarrow> jsval \<Rightarrow>
   error + (string \<times> jsval) list" where
  "loadParams rt h env fs paramsPath =
     (case resolve_source rt env fs paramsPath of
        Inl e \<Rightarrow> Inl e
      | Inr source \<Rightarrow>
         (case forEach (check_required rt (truthy paramsPath) source) REQUIRED_FIELDS of
            Inl e \<Rightarrow> Inl e
          | Inr _ \<Rightarrow>
             (let normalized = own_props source in
              case ToNumber rt (obj_get normalized ''decimals'') of
                Inl e \<Rightarrow> Inl e
              | Inr d \<Rightarrow>
                 (let normalized = obj_set normalized ''decimals'' (JNum d) in
                  if decimals_rejected d then Inl DecimalsRange
                  else
                    (case normalize_addresses rt h normalized
                            [''minterAdmin'', ''pauser'', ''blocklister'', ''rescuer'', ''owner''] of
                       Inl e \<Rightarrow> Inl e
                     | Inr normalized \<Rightarrow>
                        (case trim_field rt normalized ''name'' of
                           Inl e \<Rightarrow> Inl e
                         | Inr normalized \<Rightarrow>
                            (case trim_field rt normalized ''symbol'' of
                               Inl e \<Rightarrow> Inl e
                             | Inr normalized \<Rightarrow> trim_field rt normalized ''currency'')))))))"

subsection \<open>The deployment record and its store\<close>

text \<open>The record the deploy task builds; \<open>upgradeToV2\<close> adds the last three fields.\<close>

record deployment_record =
  network :: string
  deployedAt :: string
  deployer :: string
  txHash :: string
  proxy :: string
  implementation :: string
  params :: "(string \<times> jsval) list"
  upgradeTxHash :: "string option"
  implementationV2 :: "string option"
  upgradedAt :: "string option"

definition opt_field :: "string \<Rightarrow> string option \<Rightarrow> (string \<times> jsval) list" where
  "opt_field k v = (case v of Some s \<Rightarrow> [(k, JStr s)] | None \<Rightarrow> [])"

text \<open>The record as the JavaScript object handed to \<open>JSON.stringify\<close>.\<close>

definition record_js :: "deployment_record \<Rightarrow> jsval" where
  "record_js r =
     JObj ([(''network'', JStr (network r)),
            (''deployedAt'', JStr (deployedAt r)),
            (''deployer'', JStr (deployer r)),
            (''txHash'', JStr (txHash r)),
            (''proxy'', JStr (proxy r)),
            (''implementation'', JStr (implementation r)),
            (''params'', JObj (params r))]
           @ opt_field ''upgradeTxHash'' (upgradeTxHash r)
           @ opt_field ''implementationV2'' (implementationV2 r)
           @ opt_field ''upgradedAt'' (upgradedAt r))"

text \<open>\<open>record.deployedAt.replace(/[:]/g, '-')\<close>.\<close>

definition replace_colons :: "string \<Rightarrow> string" where
  "replace_colons s = map (\<lambda>c. if c = CHR '':'' then CHR ''-'' else c) s"

definition history_name :: "string \<Rightarrow> string \<Rightarrow> string" where
  "history_name networkName timestamp = networkName @ ''-'' @ timestamp @ ''.json''"

definition historyFile :: "node \<Rightarrow> string \<Rightarrow> deployment_record \<Rightarrow> string" where
  "historyFile rt networkName r =
     path_join rt (deployments_dir rt) (history_name networkName (replace_colons (deployedAt r)))"

definition latestFile :: "node \<Rightarrow> string \<Rightarrow> string" where
  "latestFile rt networkName = path_join rt (deployments_dir rt) (latest_name networkName)"

text \<open>persistDeployment yields the file system it leaves, and whether it returned or
  threw.\<close>

definition persistDeployment ::
  "node \<Rightarrow> filesystem \<Rightarrow> string \<Rightarrow> deployment_record \<Rightarrow> filesystem \<times> (error + unit)" where
  "persistDeployment rt fs networkName r =
     (let outDir = deployments_dir rt;
          fs = (if \<not> existsSync fs outDir then mkdirSync fs outDir else fs);
          timestamp = replace_colons (deployedAt r);
          historyFile = path_join rt outDir (history_name networkName timestamp)
      in case writeFileSync rt fs historyFile (JSON_stringify rt (record_js r)) of
           Inl e \<Rightarrow> (fs, Inl e)
         | Inr fs \<Rightarrow>
            (let latestFile = path_join rt outDir (latest_name networkName)
             in case writeFileSync rt fs latestFile (JSON_stringify rt (record_js r)) of
                  Inl e \<Rightarrow> (fs, Inl e)
                | Inr fs \<Rightarrow> (fs, Inr ())))"

text \<open>
  The shape of what \<open>Date.prototype.toISOString\<close> returns, the only source of
  \<open>deployedAt\<close>: \<open>YYYY-MM-DDTHH:mm:ss.sssZ\<close>, with a sign and six digits for a year
  outside 0 to 9999. In a pattern \<open>d\<close> stands for a digit.
\<close>

definition digit :: "char \<Rightarrow> bool" where
  "digit c = (c \<in> set ''0123456789'')"

fun matches_shape :: "string \<Rightarrow> string \<Rightarrow> bool" where
  "matches_shape [] [] = True"
| "matches_shape (p # ps) (c # cs) =
     ((if p = CHR ''d'' then digit c else c = p) \<and> matches_shape ps cs)"
| "matches_shape _ _ = False"

definition iso_timestamp :: "string \<Rightarrow> bool" where
  "iso_timestamp s =
     (matches_shape ''dddd-dd-ddTdd:dd:dd.dddZ'' s \<or>
      matches_shape ''+dddddd-dd-ddTdd:dd:dd.dddZ'' s \<or>
      matches_shape ''-dddddd-dd-ddTdd:dd:dd.dddZ'' s)"

subsection \<open>The deploy task\<close>

text \<open>What the task asks of the network plugin, the upgrades plugin and the verification
  task, in order.\<close>

datatype effect =
    ChangeNetwork string
  | DeployProxy string "jsval list"
  | UpgradeProxy string string string
  | Verify string

text \<open>\<open>verifyImplementation\<close> runs the verification task when there is one, and catches
  whatever it throws.\<close>

definition verifyImplementation :: "hre \<Rightarrow> string \<Rightarrow> effect list" where
  "verifyImplementation h implementationAddress =
     (if \<not> has_verify_task h then []
      else
        (case run_verify h implementationAddress of
           Inl e \<Rightarrow> [Verify implementationAddress]
         | Inr _ \<Rightarrow> [Verify implementationAddress]))"

definition upgradeToV2 ::
  "node \<Rightarrow> hre \<Rightarrow> filesystem \<Rightarrow> string \<Rightarrow> deployment_record \<Rightarrow> bool \<Rightarrow>
   effect list \<times> filesystem \<times> (error + deployment_record)" where
  "upgradeToV2 rt h fs proxyAddress r verify =
     (case getContractFactory h ''FiatTokenV2'' of
        Inl e \<Rightarrow> ([], fs, Inl e)
      | Inr FiatTokenV2 \<Rightarrow>
         (case upgradeProxy h proxyAddress FiatTokenV2 of
            Inl e \<Rightarrow> ([UpgradeProxy proxyAddress FiatTokenV2 ''initializeV2''], fs, Inl e)
          | Inr upgraded \<Rightarrow>
             (let eff = [UpgradeProxy proxyAddress FiatTokenV2 ''initializeV2''] in
              case (case u_wait upgraded of
                      None \<Rightarrow> Inr r
                    | Some (Inl e) \<Rightarrow> Inl e
                    | Some (Inr hash) \<Rightarrow> Inr (r\<lparr>upgradeTxHash := Some hash\<rparr>)) of
                Inl e \<Rightarrow> (eff, fs, Inl e)
              | Inr r \<Rightarrow>
                 (case getImplementationAddress h 1 proxyAddress of
                    Inl e \<Rightarrow> (eff, fs, Inl e)
                  | Inr newImplementation \<Rightarrow>
                     (let r = r\<lparr>implementationV2 := Some newImplementation,
                                upgradedAt := Some (Date_toISOString rt 1)\<rparr>;
                          eff = eff @ (if verify then verifyImplementation h newImplementation
                                       else [])
                      in case persistDeployment rt fs (network_name h) r of
                           (fs, Inl e) \<Rightarrow> (eff, fs, Inl e)
                         | (fs, Inr _) \<Rightarrow> (eff, fs, Inr r))))))"

text \<open>
  The action of deploy:jpycv2. It yields the effects requested, the file system it leaves
  and the record it returns or the error it throws. The two readings of the clock are
  \<open>Date_toISOString rt 0\<close> and \<open>Date_toISOString rt 1\<close>.
\<close>

definition switch_network :: "hre \<Rightarrow> jsval \<Rightarrow> effect list \<times> (error + hre)" where
  "switch_network h targetNetwork =
     (if truthy targetNetwork \<and> targetNetwork \<noteq> JStr (network_name h) then
        (case changeNetwork h of
           Some change \<Rightarrow>
            (case targetNetwork of
               JStr t \<Rightarrow>
                (case change t of
                   Inl e \<Rightarrow> ([ChangeNetwork t], Inl e)
                 | Inr n \<Rightarrow> ([ChangeNetwork t], Inr (h\<lparr>network_name := n\<rparr>)))
             | _ \<Rightarrow> ([], Inl (LibraryError ''changeNetwork'')))
         | None \<Rightarrow>
            ([], Inl (CannotSwitchNetwork
                       (case targetNetwork of JStr t \<Rightarrow> t | _ \<Rightarrow> []))))
      else ([], Inr h))"

definition deploy_args :: "(string \<times> jsval) list \<Rightarrow> jsval list" where
  "deploy_args ps =
     map (obj_get ps)
       [''name'', ''symbol'', ''currency'', ''decimals'', ''minterAdmin'', ''pauser'',
        ''blocklister'', ''rescuer'', ''owner'']"

definition deploy_proxy ::
  "node \<Rightarrow> hre \<Rightarrow> (string \<rightharpoonup> string) \<Rightarrow> filesystem \<Rightarrow> jsval \<Rightarrow>
   effect list \<times> filesystem \<times> (error + deployment_record)" where
  "deploy_proxy rt h env fs paramsPath =
     (case getSigners h of
        Inl e \<Rightarrow> ([], fs, Inl e)
      | Inr [] \<Rightarrow> ([], fs, Inl NoSigner)
      | Inr (deployerAddress # _) \<Rightarrow>
         (case loadParams rt h env fs paramsPath of
            Inl e \<Rightarrow> ([], fs, Inl e)
          | Inr ps \<Rightarrow>
             (case getContractFactory h ''FiatTokenV1'' of
                Inl e \<Rightarrow> ([], fs, Inl e)
              | Inr FiatTokenV1 \<Rightarrow>
                 (let eff = [DeployProxy FiatTokenV1 (deploy_args ps)] in
                  case deployProxy h FiatTokenV1 (deploy_args ps) of
                    Inl e \<Rightarrow> (eff, fs, Inl e)
                  | Inr prx \<Rightarrow>
                     (case p_wait prx of
                        Inl e \<Rightarrow> (eff, fs, Inl e)
                      | Inr hash \<Rightarrow>
                         (case getImplementationAddress h 0 (p_address prx) of
                            Inl e \<Rightarrow> (eff, fs, Inl e)
                          | Inr implementationAddress \<Rightarrow>
                             (let r = \<lparr>network = network_name h,
                                       deployedAt = Date_toISOString rt 0,
                                       deployer = deployerAddress,
                                       txHash = hash,
                                       proxy = p_address prx,
                                       implementation = implementationAddress,
                                       params = ps,
                                       upgradeTxHash = None,
                                       implementationV2 = None,
                                       upgradedAt = None\<rparr>
                              in case persistDeployment rt fs (network_name h) r of
                                   (fs, Inl e) \<Rightarrow> (eff, fs, Inl e)
                                 | (fs, Inr _) \<Rightarrow> (eff, fs, Inr r))))))))"

definition deploy_jpycv2 ::
  "node \<Rightarrow> hre \<Rightarrow> (string \<rightharpoonup> string) \<Rightarrow> filesystem \<Rightarrow> jsval \<Rightarrow> jsval \<Rightarrow> bool \<Rightarrow> bool \<Rightarrow>
   effect list \<times> filesystem \<times> (error + deployment_record)" where
  "deploy_jpycv2 rt h env fs targetNetwork paramsPath verify v1only =
     (case switch_network h targetNetwork of
        (eff0, Inl e) \<Rightarrow> (eff0, fs, Inl e)
      | (eff0, Inr h) \<Rightarrow>
         (case deploy_proxy rt h env fs paramsPath of
            (eff1, fs, Inl e) \<Rightarrow> (eff0 @ eff1, fs, Inl e)
          | (eff1, fs, Inr r) \<Rightarrow>
             (let eff2 = (if verify \<and> has_verify_task h
                          then verifyImplementation h (implementation r) else [])
              in if \<not> v1only then
                   (case upgradeToV2 rt h fs (proxy r) r verify of
                      (eff3, fs, res) \<Rightarrow> (eff0 @ eff1 @ eff2 @ eff3, fs, res))
                 else (eff0 @ eff1 @ eff2, fs, Inr r))))"

section \<open>A concrete environment\<close>

text \<open>
  To evaluate the model at concrete inputs the parameters are instantiated by tables that
  agree with Node.js and ethers v5 on the finitely many inputs listed. The two addresses are
  test vectors of EIP-55.
\<close>

definition addr1 :: string where
  "addr1 = ''0x5aAeb6053F3E94C9b9A09f33669435E7Ef1BeAed''"

definition addr1_lower :: string where
  "addr1_lower = ''0x5aaeb6053f3e94c9b9a09f33669435e7ef1beaed''"

definition addr2 :: string where
  "addr2 = ''0xfB6916095ca1df60bB79Ce92cE3Ea74c37c5d359''"

definition addr2_lower :: string where
  "addr2_lower = ''0xfb6916095ca1df60bb79ce92ce3ea74c37c5d359''"

definition demo_contract :: "string \<Rightarrow> contract" where
  "demo_contract a =
     \<lparr>c_address = a,
      c_methods = [''mint'', ''transfer'', ''burn'', ''configureMinter'', ''removeMinter'',
                   ''updatePauser'', ''updateBlocklister'', ''updateRescuer'',
                   ''updateAllowlister'', ''updateMinterAdmin'', ''transferOwnership''],
      c_signer = Inr addr2\<rparr>"

definition demo_hre :: hre where
  "demo_hre =
     \<lparr>network_name = ''hardhat'',
      isAddress = (\<lambda>v. v = JStr addr1 \<or> v = JStr addr1_lower \<or> v = JStr addr2
                        \<or> v = JStr addr2_lower \<or> v = JStr ZERO_ADDRESS),
      getAddress = (\<lambda>v. if v = JStr addr1 \<or> v = JStr addr1_lower then addr1
                         else if v = JStr addr2 \<or> v = JStr addr2_lower then addr2
                         else ZERO_ADDRESS),
      BigNumber_from = (\<lambda>v. if v = JStr ''-5'' then Inr (- 5)
                             else if v = JStr ''100'' then Inr 100
                             else Inl (LibraryError ''invalid BigNumber value'')),
      parseUnits = (\<lambda>v d. if v = JStr ''1'' \<and> d = 18 then Inr 1000000000000000000
                           else if v = JStr ''-1'' \<and> d = 18 then Inr (- 1000000000000000000)
                           else Inl (LibraryError ''invalid decimal value'')),
      getContractAt = (\<lambda>n a. Inr (demo_contract a)),
      send = (\<lambda>c. Inr ''0xreceipt''),
      getSigners = Inr [addr2],
      getContractFactory = (\<lambda>n. Inr n),
      deployProxy = (\<lambda>f args. Inr \<lparr>p_address = addr1, p_wait = Inr ''0xdeploy''\<rparr>),
      upgradeProxy = (\<lambda>a f. Inr \<lparr>u_wait = Some (Inr ''0xupgrade'')\<rparr>),
      getImplementationAddress = (\<lambda>n a. Inr (if n = 0 then addr2 else addr2_lower)),
      has_verify_task = False,
      run_verify = (\<lambda>a. Inr ()),
      changeNetwork = None\<rparr>"

definition demo_params :: "(string \<times> jsval) list" where
  "demo_params =
     [(''name'', JStr ''JPY Coin''),
      (''symbol'', JStr ''JPYC''),
      (''currency'', JStr ''JPY''),
      (''decimals'', JNum (Fin 18)),
      (''minterAdmin'', JStr addr2),
      (''pauser'', JStr addr2),
      (''blocklister'', JStr addr2),
      (''rescuer'', JStr addr2),
      (''owner'', JStr addr2)]"

definition demo_record :: deployment_record where
  "demo_record =
     \<lparr>network = ''hardhat'',
      deployedAt = ''2024-01-01T00:00:00.000Z'',
      deployer = addr2,
      txHash = ''0xdeploy'',
      proxy = addr1,
      implementation = addr2,
      params = demo_params,
      upgradeTxHash = None,
      implementationV2 = None,
      upgradedAt = None\<rparr>"

text \<open>The record after the upgrade, as the deploy task leaves it on \<open>demo_hre\<close>.\<close>

definition demo_record_v2 :: deployment_record where
  "demo_record_v2 =
     demo_record\<lparr>upgradeTxHash := Some ''0xupgrade'',
                 implementationV2 := Some addr2_lower,
                 upgradedAt := Some ''2024-01-01T00:01:00.000Z''\<rparr>"

text \<open>The JSON functions of the concrete runtime know three documents, named here by their
  file; the text of a document stands for what \<open>JSON.stringify(record, null, 2)\<close>
  prints. Its string functions are the ASCII ones, and its paths are POSIX paths of plain
  file names.\<close>

definition demo_node :: node where
  "demo_node =
     \<lparr>String_trim = ascii_trim,
      String_toLowerCase = toLowerCase,
      StringToNumber = (\<lambda>s. if s = ''18'' then Fin 18
                             else if s = ''300'' then Fin 300
                             else if s = [] then Fin 0
                             else NaN),
      NumberToString = (\<lambda>n. if n = Fin 18 then ''18''
                             else if n = Fin 300 then ''300''
                             else ''NaN''),
      JSON_parse = (\<lambda>s. if s = ''<record>'' then Inr (record_js demo_record)
                         else if s = ''<record-v2>'' then Inr (record_js demo_record_v2)
                         else if s = ''<params>'' then Inr (JObj demo_params)
                         else Inl (SyntaxError s)),
      JSON_stringify = (\<lambda>v. if v = record_js demo_record then ''<record>''
                             else if v = record_js demo_record_v2 then ''<record-v2>''
                             else if v = JObj demo_params then ''<params>''
                             else ''null''),
      path_join = (\<lambda>d f. d @ ''/'' @ f),
      path_resolve = (\<lambda>p. ''/repo/'' @ p),
      path_dirname = (\<lambda>p. rev (tl (dropWhile (\<lambda>c. c \<noteq> CHR ''/'') (rev p)))),
      deployments_dir = ''/repo/deployments'',
      Date_toISOString = (\<lambda>n. if n = 0 then ''2024-01-01T00:00:00.000Z''
                               else ''2024-01-01T00:01:00.000Z'')\<rparr>"

definition empty_fs :: filesystem where
  "empty_fs = \<lparr>files = Map.empty, dirs = {}\<rparr>"

definition demo_env :: "string \<rightharpoonup> string" where
  "demo_env =
     map_of
       [(''TOKEN_NAME'', ''JPY Coin''),
        (''TOKEN_SYMBOL'', ''JPYC''),
        (''TOKEN_CURRENCY'', ''JPY''),
        (''TOKEN_DECIMALS'', ''18''),
        (''JPYC_MINTER_ADMIN'', addr2_lower),
        (''JPYC_PAUSER'', addr2_lower),
        (''JPYC_BLOCKLISTER'', addr2_lower),
        (''JPYC_RESCUER'', addr2_lower),
        (''JPYC_OWNER'', addr2_lower)]"

text \<open>A file system holding the latest record of network \<open>hardhat\<close>, and one holding the
  two files of a deployment to a network \<open>foo-x\<close>.\<close>

definition demo_fs :: filesystem where
  "demo_fs =
     \<lparr>files = [''/repo/deployments/hardhat-latest.json'' \<mapsto> ''<record>''],
      dirs = {''/repo/deployments''}\<rparr>"

definition other_fs :: filesystem where
  "other_fs =
     \<lparr>files = [''/repo/deployments/foo-x-latest.json'' \<mapsto> ''<record-v2>'',
               ''/repo/deployments/foo-x-2024-01-01T00-00-00.000Z.json'' \<mapsto> ''<record-v2>''],
      dirs = {''/repo/deployments''}\<rparr>"

text \<open>The environment with a decimals value out of range.\<close>

definition env_300 :: "string \<rightharpoonup> string" where
  "env_300 = demo_env(''TOKEN_DECIMALS'' \<mapsto> ''300'')"

text \<open>An environment whose \<open>TOKEN_SYMBOL\<close> is blank, and a file system with a parameter
  file.\<close>

definition env_blank :: "string \<rightharpoonup> string" where
  "env_blank = demo_env(''TOKEN_SYMBOL'' \<mapsto> ''  '')"

definition params_fs :: filesystem where
  "params_fs = \<lparr>files = [''/repo/params.json'' \<mapsto> ''<params>''], dirs = {}\<rparr>"

section \<open>Properties\<close>

subsection \<open>Auxiliary facts\<close>

lemma demo_String_trim: "String_trim demo_node = ascii_trim"
  by (simp add: demo_node_def)

lemma demo_String_toLowerCase: "String_toLowerCase demo_node = toLowerCase"
  by (simp add: demo_node_def)

lemma toLowerCase_ZERO: "toLowerCase ZERO_ADDRESS = ZERO_ADDRESS"
  by (simp add: toLowerCase_def ZERO_ADDRESS_def lower_char_def)

lemma resolve_explicit:
  "truthy explicit \<Longrightarrow>
   resolveContractAddress rt h env fs explicit =
     (if \<not> isAddress h explicit then Inl (InvalidContractAddress explicit)
      else if toLowerCase (getAddress h explicit) = ZERO_ADDRESS then Inl ZeroContractAddress
      else Inr (getAddress h explicit))"
  by (subst resolveContractAddress.simps) (simp add: Let_def)

lemma admin_resolve_explicit:
  "truthy explicit \<Longrightarrow>
   admin_resolveContractAddress rt h env fs explicit =
     (if \<not> isAddress h explicit then Inl (InvalidContractAddress explicit)
      else if toLowerCase (getAddress h explicit) = ZERO_ADDRESS
        then Inl ZeroContractAddressAdmin
      else Inr (getAddress h explicit))"
  by (subst admin_resolveContractAddress.simps) (simp add: Let_def)

subsection \<open>The address normalizer\<close>

text \<open>
  Claim C3. For every input and label, normalizeAddress (in actions.js and in admin.js)
  returns the checksummed form \<open>utils.getAddress(value)\<close> when \<open>utils.isAddress(value)\<close>
  holds and that form is not the zero address; it throws \<open>Invalid <label> address\<close> when
  the input is not a valid address, and \<open><label> address must not be zero\<close> when the
  checksummed form is the zero address (compared in lower case).
\<close>

theorem normalizeAddress_checksummed:
  "(isAddress h v \<and> toLowerCase (getAddress h v) \<noteq> ZERO_ADDRESS \<longrightarrow>
      normalizeAddress h v label = Inr (getAddress h v) \<and>
      admin_normalizeAddress h v label = Inr (getAddress h v)) \<and>
   (\<not> isAddress h v \<longrightarrow>
      normalizeAddress h v label = Inl (InvalidAddress label v) \<and>
      admin_normalizeAddress h v label = Inl (InvalidAddress label v)) \<and>
   (isAddress h v \<and>
    (getAddress h v = ZERO_ADDRESS \<or> toLowerCase (getAddress h v) = ZERO_ADDRESS) \<longrightarrow>
      normalizeAddress h v label = Inl (ZeroAddress label) \<and>
      admin_normalizeAddress h v label = Inl (ZeroAddress label))"
  by (auto simp: normalizeAddress_def admin_normalizeAddress_def Let_def toLowerCase_ZERO)

theorem normalizeAddress_checksummed_witness:
  "normalizeAddress demo_hre (JStr addr1_lower) ''recipient'' = Inr addr1 \<and>
   admin_normalizeAddress demo_hre (JStr addr1_lower) ''minter'' = Inr addr1 \<and>
   normalizeAddress demo_hre (JStr ''0x12'') ''recipient''
     = Inl (InvalidAddress ''recipient'' (JStr ''0x12'')) \<and>
   normalizeAddress demo_hre (JStr ZERO_ADDRESS) ''recipient'' = Inl (ZeroAddress ''recipient'')"
  using normalizeAddress_checksummed [of demo_hre "JStr addr1_lower" "''recipient''"]
        normalizeAddress_checksummed [of demo_hre "JStr addr1_lower" "''minter''"]
        normalizeAddress_checksummed [of demo_hre "JStr ''0x12''" "''recipient''"]
        normalizeAddress_checksummed [of demo_hre "JStr ZERO_ADDRESS" "''recipient''"]
  by (simp add: demo_hre_def addr1_def addr1_lower_def addr2_def addr2_lower_def
        ZERO_ADDRESS_def toLowerCase_def lower_char_def)

subsection \<open>The resolver\<close>

lemma env_absent_falsy:
  "env ''JPYC_PROXY'' \<in> {None, Some []} \<Longrightarrow> env ''JPYC_CONTRACT_ADDRESS'' \<in> {None, Some []} \<Longrightarrow>
   \<not> truthy (js_or (env_get env ''JPYC_PROXY'') (env_get env ''JPYC_CONTRACT_ADDRESS''))"
  by (auto simp: js_or_def env_get_def)

lemma resolve_from_env:
  "\<not> truthy explicit \<Longrightarrow>
   truthy (js_or (env_get env ''JPYC_PROXY'') (env_get env ''JPYC_CONTRACT_ADDRESS'')) \<Longrightarrow>
   resolveContractAddress rt h env fs explicit =
     resolveContractAddress rt h env fs
       (js_or (env_get env ''JPYC_PROXY'') (env_get env ''JPYC_CONTRACT_ADDRESS''))"
  by (subst resolveContractAddress.simps) (simp add: Let_def)

lemma resolve_from_file:
  "\<not> truthy explicit \<Longrightarrow>
   \<not> truthy (js_or (env_get env ''JPYC_PROXY'') (env_get env ''JPYC_CONTRACT_ADDRESS'')) \<Longrightarrow>
   resolveContractAddress rt h env fs explicit =
     (if existsSync fs (latestFile rt (network_name h)) then
        (case readFileSync fs (latestFile rt (network_name h)) of
           Inl e \<Rightarrow> Inl e
         | Inr contents \<Rightarrow>
            (case JSON_parse rt contents of
               Inl e \<Rightarrow> Inl e
             | Inr parsed \<Rightarrow>
                if truthy parsed then
                  (case js_get parsed ''proxy'' of
                     Inl e \<Rightarrow> Inl e
                   | Inr p \<Rightarrow>
                      if truthy p then resolveContractAddress rt h env fs p
                      else Inl UnableToDetermine)
                else Inl UnableToDetermine))
      else Inl UnableToDetermine)"
  by (subst resolveContractAddress.simps) (simp add: Let_def latestFile_def)

lemma resolve_env_first:
  "\<not> truthy explicit \<Longrightarrow> env ''JPYC_PROXY'' = Some p \<Longrightarrow> p \<noteq> [] \<Longrightarrow>
   resolveContractAddress rt h env fs explicit = resolveContractAddress rt h env fs (JStr p)"
  using resolve_from_env [of explicit env rt h fs] by (simp add: js_or_def env_get_def)

lemma resolve_env_second:
  "\<not> truthy explicit \<Longrightarrow> env ''JPYC_PROXY'' \<in> {None, Some []} \<Longrightarrow>
   env ''JPYC_CONTRACT_ADDRESS'' = Some c \<Longrightarrow> c \<noteq> [] \<Longrightarrow>
   resolveContractAddress rt h env fs explicit = resolveContractAddress rt h env fs (JStr c)"
  using resolve_from_env [of explicit env rt h fs] by (auto simp: js_or_def env_get_def)

lemma resolve_file_proxy:
  "\<not> truthy explicit \<Longrightarrow> env ''JPYC_PROXY'' \<in> {None, Some []} \<Longrightarrow>
   env ''JPYC_CONTRACT_ADDRESS'' \<in> {None, Some []} \<Longrightarrow>
   files fs (latestFile rt (network_name h)) = Some contents \<Longrightarrow>
   JSON_parse rt contents = Inr parsed \<Longrightarrow> truthy parsed \<Longrightarrow>
   js_get parsed ''proxy'' = Inr a \<Longrightarrow> truthy a \<Longrightarrow>
   resolveContractAddress rt h env fs explicit = resolveContractAddress rt h env fs a"
  using env_absent_falsy [of env]
  by (simp add: resolve_from_file existsSync_def readFileSync_def)

lemma resolve_unable:
  "\<not> truthy explicit \<Longrightarrow> env ''JPYC_PROXY'' \<in> {None, Some []} \<Longrightarrow>
   env ''JPYC_CONTRACT_ADDRESS'' \<in> {None, Some []} \<Longrightarrow>
   \<not> existsSync fs (latestFile rt (network_name h)) \<or>
     files fs (latestFile rt (network_name h)) = Some contents \<and>
     JSON_parse rt contents = Inr parsed \<and>
     (\<not> truthy parsed \<or> js_get parsed ''proxy'' = Inr a \<and> \<not> truthy a) \<Longrightarrow>
   resolveContractAddress rt h env fs explicit = Inl UnableToDetermine"
  using env_absent_falsy [of env]
  by (auto simp: resolve_from_file existsSync_def readFileSync_def)

lemma admin_resolve_from_env:
  "\<not> truthy explicit \<Longrightarrow>
   truthy (js_or (env_get env ''JPYC_PROXY'') (env_get env ''JPYC_CONTRACT_ADDRESS'')) \<Longrightarrow>
   admin_resolveContractAddress rt h env fs explicit =
     admin_resolveContractAddress rt h env fs
       (js_or (env_get env ''JPYC_PROXY'') (env_get env ''JPYC_CONTRACT_ADDRESS''))"
  by (subst admin_resolveContractAddress.simps) (simp add: Let_def)

lemma admin_resolve_from_file:
  "\<not> truthy explicit \<Longrightarrow>
   \<not> truthy (js_or (env_get env ''JPYC_PROXY'') (env_get env ''JPYC_CONTRACT_ADDRESS'')) \<Longrightarrow>
   admin_resolveContractAddress rt h env fs explicit =
     (if existsSync fs (latestFile rt (network_name h)) then
        (case readFileSync fs (latestFile rt (network_name h)) of
           Inl e \<Rightarrow> Inl e
         | Inr contents \<Rightarrow>
            (case JSON_parse rt contents of
               Inl e \<Rightarrow> Inl e
             | Inr parsed \<Rightarrow>
                if truthy parsed then
                  (case js_get parsed ''proxy'' of
                     Inl e \<Rightarrow> Inl e
                   | Inr p \<Rightarrow>
                      if truthy p then admin_resolveContractAddress rt h env fs p
                      else Inl UnableToDetermine)
                else Inl UnableToDetermine))
      else Inl UnableToDetermine)"
  by (subst admin_resolveContractAddress.simps) (simp add: Let_def latestFile_def)

lemma admin_resolve_env_first:
  "\<not> truthy explicit \<Longrightarrow> env ''JPYC_PROXY'' = Some p \<Longrightarrow> p \<noteq> [] \<Longrightarrow>
   admin_resolveContractAddress rt h env fs explicit = admin_resolveContractAddress rt h env fs (JStr p)"
  using admin_resolve_from_env [of explicit env rt h fs] by (simp add: js_or_def env_get_def)

lemma admin_resolve_env_second:
  "\<not> truthy explicit \<Longrightarrow> env ''JPYC_PROXY'' \<in> {None, Some []} \<Longrightarrow>
   env ''JPYC_CONTRACT_ADDRESS'' = Some c \<Longrightarrow> c \<noteq> [] \<Longrightarrow>
   admin_resolveContractAddress rt h env fs explicit = admin_resolveContractAddress rt h env fs (JStr c)"
  using admin_resolve_from_env [of explicit env rt h fs] by (auto simp: js_or_def env_get_def)

lemma admin_resolve_file_proxy:
  "\<not> truthy explicit \<Longrightarrow> env ''JPYC_PROXY'' \<in> {None, Some []} \<Longrightarrow>
   env ''JPYC_CONTRACT_ADDRESS'' \<in> {None, Some []} \<Longrightarrow>
   files fs (latestFile rt (network_name h)) = Some contents \<Longrightarrow>
   JSON_parse rt contents = Inr parsed \<Longrightarrow> truthy parsed \<Longrightarrow>
   js_get parsed ''proxy'' = Inr a \<Longrightarrow> truthy a \<Longrightarrow>
   admin_resolveContractAddress rt h env fs explicit = admin_resolveContractAddress rt h env fs a"
  using env_absent_falsy [of env]
  by (simp add: admin_resolve_from_file existsSync_def readFileSync_def)

lemma admin_resolve_unable:
  "\<not> truthy explicit \<Longrightarrow> env ''JPYC_PROXY'' \<in> {None, Some []} \<Longrightarrow>
   env ''JPYC_CONTRACT_ADDRESS'' \<in> {None, Some []} \<Longrightarrow>
   \<not> existsSync fs (latestFile rt (network_name h)) \<or>
     files fs (latestFile rt (network_name h)) = Some contents \<and>
     JSON_parse rt contents = Inr parsed \<and>
     (\<not> truthy parsed \<or> js_get parsed ''proxy'' = Inr a \<and> \<not> truthy a) \<Longrightarrow>
   admin_resolveContractAddress rt h env fs explicit = Inl UnableToDetermine"
  using env_absent_falsy [of env]
  by (auto simp: admin_resolve_from_file existsSync_def readFileSync_def)

text \<open>
  Claim C8. resolveContractAddress (in actions.js and in admin.js) follows a fixed
  precedence: an explicit argument is used, and validated, whatever the environment and the
  files hold; without one (absent or empty) a non-empty \<open>JPYC_PROXY\<close> is used; without that a
  non-empty \<open>JPYC_CONTRACT_ADDRESS\<close>; without that the \<open>proxy\<close> field of the latest
  deployment record of the network. The value used goes through the same validation as an
  explicit argument. When no source yields an address (the record file is absent, or it
  parses to a value without a usable \<open>proxy\<close>) the resolver throws
  \<open>Unable to determine proxy address\<close>.
\<close>

theorem resolveContractAddress_precedence:
  fixes rt :: node and h :: hre and env :: "string \<rightharpoonup> string" and fs :: filesystem
  shows
  "((truthy explicit \<longrightarrow>
      resolveContractAddress rt h env fs explicit =
        (if \<not> isAddress h explicit then Inl (InvalidContractAddress explicit)
         else if toLowerCase (getAddress h explicit) = ZERO_ADDRESS then Inl ZeroContractAddress
         else Inr (getAddress h explicit))) \<and>
   (\<not> truthy explicit \<and> env ''JPYC_PROXY'' = Some p \<and> p \<noteq> [] \<longrightarrow>
      resolveContractAddress rt h env fs explicit = resolveContractAddress rt h env fs (JStr p)) \<and>
   (\<not> truthy explicit \<and> env ''JPYC_PROXY'' \<in> {None, Some []} \<and>
    env ''JPYC_CONTRACT_ADDRESS'' = Some c \<and> c \<noteq> [] \<longrightarrow>
      resolveContractAddress rt h env fs explicit = resolveContractAddress rt h env fs (JStr c)) \<and>
   (\<not> truthy explicit \<and> env ''JPYC_PROXY'' \<in> {None, Some []} \<and>
    env ''JPYC_CONTRACT_ADDRESS'' \<in> {None, Some []} \<and>
    files fs (latestFile rt (network_name h)) = Some contents \<and>
    JSON_parse rt contents = Inr parsed \<and> truthy parsed \<and>
    js_get parsed ''proxy'' = Inr a \<and> truthy a \<longrightarrow>
      resolveContractAddress rt h env fs explicit = resolveContractAddress rt h env fs a) \<and>
   (\<not> truthy explicit \<and> env ''JPYC_PROXY'' \<in> {None, Some []} \<and>
    env ''JPYC_CONTRACT_ADDRESS'' \<in> {None, Some []} \<and>
    (\<not> existsSync fs (latestFile rt (network_name h)) \<or>
     files fs (latestFile rt (network_name h)) = Some contents \<and>
     JSON_parse rt contents = Inr parsed \<and>
     (\<not> truthy parsed \<or> js_get parsed ''proxy'' = Inr a \<and> \<not> truthy a)) \<longrightarrow>
      resolveContractAddress rt h env fs explicit = Inl UnableToDetermine)) \<and>
   ((truthy explicit \<longrightarrow>
      admin_resolveContractAddress rt h env fs explicit =
        (if \<not> isAddress h explicit then Inl (InvalidContractAddress explicit)
         else if toLowerCase (getAddress h explicit) = ZERO_ADDRESS then Inl ZeroContractAddressAdmin
         else Inr (getAddress h explicit))) \<and>
   (\<not> truthy explicit \<and> env ''JPYC_PROXY'' = Some p \<and> p \<noteq> [] \<longrightarrow>
      admin_resolveContractAddress rt h env fs explicit = admin_resolveContractAddress rt h env fs (JStr p)) \<and>
   (\<not> truthy explicit \<and> env ''JPYC_PROXY'' \<in> {None, Some []} \<and>
    env ''JPYC_CONTRACT_ADDRESS'' = Some c \<and> c \<noteq> [] \<longrightarrow>
      admin_resolveContractAddress rt h env fs explicit = admin_resolveContractAddress rt h env fs (JStr c)) \<and>
   (\<not> truthy explicit \<and> env ''JPYC_PROXY'' \<in> {None, Some []} \<and>
    env ''JPYC_CONTRACT_ADDRESS'' \<in> {None, Some []} \<and>
    files fs (latestFile rt (network_name h)) = Some contents \<and>
    JSON_parse rt contents = Inr parsed \<and> truthy parsed \<and>
    js_get parsed ''proxy'' = Inr a \<and> truthy a \<longrightarrow>
      admin_resolveContractAddress rt h env fs explicit = admin_resolveContractAddress rt h env fs a) \<and>
   (\<not> truthy explicit \<and> env ''JPYC_PROXY'' \<in> {None, Some []} \<and>
    env ''JPYC_CONTRACT_ADDRESS'' \<in> {None, Some []} \<and>
    (\<not> existsSync fs (latestFile rt (network_name h)) \<or>
     files fs (latestFile rt (network_name h)) = Some contents \<and>
     JSON_parse rt contents = Inr parsed \<and>
     (\<not> truthy parsed \<or> js_get parsed ''proxy'' = Inr a \<and> \<not> truthy a)) \<longrightarrow>
      admin_resolveContractAddress rt h env fs explicit = Inl UnableToDetermine))"
proof (intro conjI impI, goal_cases)
  case 1 then show ?case by (rule resolve_explicit)
next
  case 2 then show ?case using resolve_env_first [of explicit env p rt h fs] by simp
next
  case 3 then show ?case using resolve_env_second [of explicit env c rt h fs] by simp
next
  case 4 then show ?case using resolve_file_proxy [of explicit env fs rt h contents parsed a] by simp
next
  case 5 then show ?case using resolve_unable [of explicit env fs rt h contents parsed a] by simp
next
  case 6 then show ?case by (rule admin_resolve_explicit)
next
  case 7 then show ?case using admin_resolve_env_first [of explicit env p rt h fs] by simp
next
  case 8 then show ?case using admin_resolve_env_second [of explicit env c rt h fs] by simp
next
  case 9 then show ?case using admin_resolve_file_proxy [of explicit env fs rt h contents parsed a] by simp
next
  case 10 then show ?case using admin_resolve_unable [of explicit env fs rt h contents parsed a] by simp
qed

theorem resolveContractAddress_precedence_witness:
  "resolveContractAddress demo_node demo_hre
     [''JPYC_PROXY'' \<mapsto> addr2_lower, ''JPYC_CONTRACT_ADDRESS'' \<mapsto> addr1_lower] demo_fs
     (JStr addr1_lower) = Inr addr1 \<and>
   resolveContractAddress demo_node demo_hre
     [''JPYC_PROXY'' \<mapsto> addr2_lower, ''JPYC_CONTRACT_ADDRESS'' \<mapsto> addr1_lower] demo_fs
     JUndefined = Inr addr2 \<and>
   resolveContractAddress demo_node demo_hre
     [''JPYC_CONTRACT_ADDRESS'' \<mapsto> addr2_lower] demo_fs JUndefined = Inr addr2 \<and>
   resolveContractAddress demo_node demo_hre Map.empty demo_fs JUndefined = Inr addr1 \<and>
   admin_resolveContractAddress demo_node demo_hre Map.empty empty_fs JUndefined
     = Inl UnableToDetermine"
proof -
  note defs = demo_hre_def demo_node_def demo_fs_def empty_fs_def addr1_def addr1_lower_def
    addr2_def addr2_lower_def ZERO_ADDRESS_def toLowerCase_def lower_char_def latestFile_def
    latest_name_def existsSync_def record_js_def demo_record_def obj_get_def opt_field_def
  let ?e2 = "[''JPYC_PROXY'' \<mapsto> addr2_lower, ''JPYC_CONTRACT_ADDRESS'' \<mapsto> addr1_lower]"
  let ?e1 = "[''JPYC_CONTRACT_ADDRESS'' \<mapsto> addr2_lower]"
  have 1: "resolveContractAddress demo_node demo_hre ?e2 demo_fs (JStr addr1_lower) = Inr addr1"
    using resolveContractAddress_precedence
      [where explicit = "JStr addr1_lower" and h = demo_hre and rt = demo_node
         and env = ?e2 and fs = demo_fs]
    by (simp add: defs)
  have a2: "resolveContractAddress demo_node demo_hre ?e2 demo_fs (JStr addr2_lower) = Inr addr2"
    using resolveContractAddress_precedence
      [where explicit = "JStr addr2_lower" and h = demo_hre and rt = demo_node
         and env = ?e2 and fs = demo_fs]
    by (simp add: defs)
  have 2: "resolveContractAddress demo_node demo_hre ?e2 demo_fs JUndefined = Inr addr2"
    using resolveContractAddress_precedence
      [where explicit = JUndefined and h = demo_hre and rt = demo_node
         and env = ?e2 and fs = demo_fs and p = addr2_lower] a2
    by (simp add: addr2_lower_def)
  have a3: "resolveContractAddress demo_node demo_hre ?e1 demo_fs (JStr addr2_lower) = Inr addr2"
    using resolveContractAddress_precedence
      [where explicit = "JStr addr2_lower" and h = demo_hre and rt = demo_node
         and env = ?e1 and fs = demo_fs]
    by (simp add: defs)
  have 3: "resolveContractAddress demo_node demo_hre ?e1 demo_fs JUndefined = Inr addr2"
    using resolveContractAddress_precedence
      [where explicit = JUndefined and h = demo_hre and rt = demo_node
         and env = ?e1 and fs = demo_fs and c = addr2_lower] a3
    by (simp add: addr2_lower_def)
  have a4: "resolveContractAddress demo_node demo_hre Map.empty demo_fs (JStr addr1) = Inr addr1"
    using resolveContractAddress_precedence
      [where explicit = "JStr addr1" and h = demo_hre and rt = demo_node
         and env = Map.empty and fs = demo_fs]
    by (simp add: defs)
  have 4: "resolveContractAddress demo_node demo_hre Map.empty demo_fs JUndefined = Inr addr1"
    using resolveContractAddress_precedence
      [where explicit = JUndefined and h = demo_hre and rt = demo_node
         and env = Map.empty and fs = demo_fs and contents = "''<record>''"
         and parsed = "record_js demo_record" and a = "JStr addr1"] a4
    by (simp add: defs)
  have 5: "admin_resolveContractAddress demo_node demo_hre Map.empty empty_fs JUndefined
      = Inl UnableToDetermine"
    using resolveContractAddress_precedence
      [where explicit = JUndefined and h = demo_hre and rt = demo_node
         and env = Map.empty and fs = empty_fs]
    by (simp add: defs)
  from 1 2 3 4 5 show ?thesis by simp
qed


subsection \<open>The deployment record store\<close>

lemma writeFileSync_Inr:
  "writeFileSync rt fs p c = Inr fs' \<Longrightarrow>
   files fs' = (files fs)(p \<mapsto> c) \<and> dirs fs' = dirs fs"
  by (auto simp: writeFileSync_def split: if_splits)

lemma persist_files:
  assumes "persistDeployment rt fs n r = (fs', Inr u)"
  shows "files fs' =
     (files fs)(historyFile rt n r \<mapsto> JSON_stringify rt (record_js r),
                latestFile rt n \<mapsto> JSON_stringify rt (record_js r))"
  using assms
  by (auto simp: persistDeployment_def Let_def mkdirSync_def historyFile_def latestFile_def
        split: sum.splits if_splits dest!: writeFileSync_Inr)

lemma persist_dirs:
  assumes "persistDeployment rt fs n r = (fs', Inr u)"
  shows "dirs fs' =
     (if existsSync fs (deployments_dir rt) then dirs fs
      else insert (deployments_dir rt) (dirs fs))"
  using assms
  by (auto simp: persistDeployment_def Let_def mkdirSync_def
        split: sum.splits if_splits dest!: writeFileSync_Inr)

lemma persist_frame:
  assumes "persistDeployment rt fs n r = (fs', res)"
    and "p \<noteq> historyFile rt n r" and "p \<noteq> latestFile rt n"
  shows "files fs' p = files fs p"
  using assms
  by (auto simp: persistDeployment_def Let_def mkdirSync_def historyFile_def latestFile_def
        split: sum.splits if_splits dest!: writeFileSync_Inr)

text \<open>On the concrete runtime a deployment to \<open>hardhat\<close> at the first reading of the
  clock is persisted without error.\<close>

lemma demo_persist:
  assumes "dirs fs \<subseteq> {''/repo/deployments''}" and "files fs ''/repo/deployments'' = None"
    and "deployedAt r = ''2024-01-01T00:00:00.000Z''"
  shows "snd (persistDeployment demo_node fs ''hardhat'' r) = Inr ()"
    and "dirs (fst (persistDeployment demo_node fs ''hardhat'' r)) = {''/repo/deployments''}"
    and "files (fst (persistDeployment demo_node fs ''hardhat'' r)) ''/repo/deployments'' = None"
proof -
  have rt: "\<And>d f. path_join demo_node d f = d @ ''/'' @ f"
    "\<And>p. path_dirname demo_node p = rev (tl (dropWhile (\<lambda>c. c \<noteq> CHR ''/'') (rev p)))"
    "deployments_dir demo_node = ''/repo/deployments''"
    by (simp_all add: demo_node_def)
  have d: "\<And>p. p \<in> dirs fs \<Longrightarrow> p = ''/repo/deployments''"
    using assms(1) by auto
  note defs = persistDeployment_def Let_def writeFileSync_def existsSync_def mkdirSync_def rt
    history_name_def latest_name_def replace_colons_def assms(2,3)
  show "snd (persistDeployment demo_node fs ''hardhat'' r) = Inr ()"
    by (auto simp: defs dest: d)
  show "dirs (fst (persistDeployment demo_node fs ''hardhat'' r)) = {''/repo/deployments''}"
    by (auto simp: defs dest: d)
  show "files (fst (persistDeployment demo_node fs ''hardhat'' r)) ''/repo/deployments'' = None"
    by (auto simp: defs dest: d)
qed

lemma js_get_str_truthy: "js_get v k = Inr (JStr s) \<Longrightarrow> truthy v"
  by (cases v) auto

text \<open>
  Claim C1. Round trip of the record store: let the record have a valid, non-zero, non-empty
  proxy address, and let \<open>JSON.parse\<close> read back from the serialization of the record a
  value with that \<open>proxy\<close> field. After persistDeployment has run (it returned) for the
  network of the environment, resolveContractAddress without an explicit argument, with
  neither \<open>JPYC_PROXY\<close> nor \<open>JPYC_CONTRACT_ADDRESS\<close> set, returns the checksummed form
  of \<open>record.proxy\<close>, whatever the file system held before.
\<close>

theorem persist_then_resolve:
  assumes valid: "isAddress h (JStr (proxy r))"
    and nonzero: "toLowerCase (getAddress h (JStr (proxy r))) \<noteq> ZERO_ADDRESS"
    and nonempty: "proxy r \<noteq> []"
    and net: "network_name h = networkName"
    and env1: "env ''JPYC_PROXY'' = None"
    and env2: "env ''JPYC_CONTRACT_ADDRESS'' = None"
    and parse: "JSON_parse rt (JSON_stringify rt (record_js r)) = Inr parsed"
    and field: "js_get parsed ''proxy'' = Inr (JStr (proxy r))"
    and ran: "persistDeployment rt fs networkName r = (fs', Inr ())"
  shows "resolveContractAddress rt h env fs' JUndefined
           = Inr (getAddress h (JStr (proxy r))) \<and>
         admin_resolveContractAddress rt h env fs' JUndefined
           = Inr (getAddress h (JStr (proxy r)))"
proof -
  let ?fs = "fs'"
  have lat: "files ?fs (latestFile rt (network_name h)) = Some (JSON_stringify rt (record_js r))"
    by (simp add: persist_files [OF ran] net)
  have tp: "truthy parsed" using field by (rule js_get_str_truthy)
  have ta: "truthy (JStr (proxy r))" using nonempty by simp
  have a: "resolveContractAddress rt h env ?fs JUndefined
             = resolveContractAddress rt h env ?fs (JStr (proxy r))"
    by (rule resolve_file_proxy [OF _ _ _ lat parse tp field ta]) (simp_all add: env1 env2)
  have b: "admin_resolveContractAddress rt h env ?fs JUndefined
             = admin_resolveContractAddress rt h env ?fs (JStr (proxy r))"
    by (rule admin_resolve_file_proxy [OF _ _ _ lat parse tp field ta]) (simp_all add: env1 env2)
  show ?thesis
    using valid nonzero ta by (simp add: a b resolve_explicit admin_resolve_explicit)
qed

theorem persist_then_resolve_witness:
  "snd (persistDeployment demo_node empty_fs ''hardhat'' demo_record) = Inr () \<and>
   resolveContractAddress demo_node demo_hre Map.empty
     (fst (persistDeployment demo_node empty_fs ''hardhat'' demo_record)) JUndefined
     = Inr addr1 \<and>
   admin_resolveContractAddress demo_node demo_hre Map.empty
     (fst (persistDeployment demo_node empty_fs ''hardhat'' demo_record)) JUndefined
     = Inr addr1"
proof -
  note defs = demo_hre_def demo_node_def addr1_def addr1_lower_def addr2_def addr2_lower_def
    ZERO_ADDRESS_def toLowerCase_def lower_char_def record_js_def demo_record_def obj_get_def
    opt_field_def
  let ?out = "persistDeployment demo_node empty_fs ''hardhat'' demo_record"
  have ok: "snd ?out = Inr ()"
    by (rule demo_persist) (simp_all add: empty_fs_def demo_record_def)
  then have ran: "?out = (fst ?out, Inr ())" by (simp add: prod_eq_iff)
  have "isAddress demo_hre (JStr (proxy demo_record))" by (simp add: defs)
  moreover have "toLowerCase (getAddress demo_hre (JStr (proxy demo_record))) \<noteq> ZERO_ADDRESS"
    by (simp add: defs)
  moreover have "proxy demo_record \<noteq> []" by (simp add: defs)
  moreover have "network_name demo_hre = ''hardhat''" by (simp add: defs)
  moreover have "JSON_parse demo_node (JSON_stringify demo_node (record_js demo_record))
      = Inr (record_js demo_record)" by (simp add: demo_node_def)
  moreover have "js_get (record_js demo_record) ''proxy'' = Inr (JStr (proxy demo_record))"
    by (simp add: defs)
  moreover have "getAddress demo_hre (JStr (proxy demo_record)) = addr1" by (simp add: defs)
  ultimately show ?thesis
    using persist_then_resolve [of demo_hre demo_record "''hardhat''" Map.empty demo_node
        "record_js demo_record" empty_fs "fst ?out"] ran ok
    by simp
qed

lemma matches_shape_length: "matches_shape p s \<Longrightarrow> length s = length p"
  by (induction p s rule: matches_shape.induct) auto

lemma matches_shape_replace_colons:
  "matches_shape p s \<Longrightarrow> matches_shape (replace_colons p) (replace_colons s)"
  by (induction p s rule: matches_shape.induct)
     (auto simp: replace_colons_def digit_def split: if_splits)

lemma replace_colons_shapes:
  "replace_colons ''dddd-dd-ddTdd:dd:dd.dddZ'' = ''dddd-dd-ddTdd-dd-dd.dddZ''"
  "replace_colons ''+dddddd-dd-ddTdd:dd:dd.dddZ'' = ''+dddddd-dd-ddTdd-dd-dd.dddZ''"
  "replace_colons ''-dddddd-dd-ddTdd:dd:dd.dddZ'' = ''-dddddd-dd-ddTdd-dd-dd.dddZ''"
  by (simp_all add: replace_colons_def)

lemma iso_cases:
  assumes "iso_timestamp s"
  obtains "length (replace_colons s) = 24" "last (replace_colons s) = CHR ''Z''"
  | a b c t where "replace_colons s = [a, b, c] @ t" "length t = 24" "digit c"
      "last t = CHR ''Z''"
proof -
  define ts where "ts = replace_colons s"
  from assms consider "matches_shape ''dddd-dd-ddTdd-dd-dd.dddZ'' ts"
    | "matches_shape ''+dddddd-dd-ddTdd-dd-dd.dddZ'' ts"
    | "matches_shape ''-dddddd-dd-ddTdd-dd-dd.dddZ'' ts"
    unfolding iso_timestamp_def ts_def
    using matches_shape_replace_colons [of _ s] replace_colons_shapes by metis
  then show ?thesis
  proof cases
    case 1
    then have "length ts = 24" "last ts = CHR ''Z''"
      by (auto elim!: matches_shape.elims)
    then show ?thesis unfolding ts_def by (rule that(1))
  next
    case 2
    then obtain a b c t where "ts = [a, b, c] @ t" "length t = 24" "digit c"
      "last t = CHR ''Z''"
      by (auto elim!: matches_shape.elims)
    then show ?thesis unfolding ts_def by (rule that(2))
  next
    case 3
    then obtain a b c t where "ts = [a, b, c] @ t" "length t = 24" "digit c"
      "last t = CHR ''Z''"
      by (auto elim!: matches_shape.elims)
    then show ?thesis unfolding ts_def by (rule that(2))
  qed
qed

lemma not_digit_dash: "\<not> digit CHR ''-''"
  by (simp add: digit_def)

text \<open>File names of distinct networks with ISO timestamps differ.\<close>

lemma history_names_distinct:
  assumes "iso_timestamp s" and "iso_timestamp s'" and "n' \<noteq> n"
  shows "history_name n (replace_colons s) \<noteq> history_name n' (replace_colons s')"
proof
  assume "history_name n (replace_colons s) = history_name n' (replace_colons s')"
  then have eq: "(n @ ''-'') @ replace_colons s = (n' @ ''-'') @ replace_colons s'"
    by (simp add: history_name_def)
  from assms(1) show False
  proof (cases rule: iso_cases)
    case 1
    from assms(2) show False
    proof (cases rule: iso_cases)
      case 1
      with \<open>length (replace_colons s) = 24\<close> eq have "n @ ''-'' = n' @ ''-''" by simp
      with assms(3) show False by simp
    next
      case (2 a b c t)
      with eq have "(n @ ''-'') @ replace_colons s = ((n' @ ''-'') @ [a, b, c]) @ t" by simp
      with \<open>length (replace_colons s) = 24\<close> \<open>length t = 24\<close>
      have "n @ ''-'' = (n' @ ''-'') @ [a, b, c]" by (simp del: append_assoc)
      then have "c = CHR ''-''" by simp
      with \<open>digit c\<close> not_digit_dash show False by simp
    qed
  next
    case (2 a b c t)
    note s2 = this
    from assms(2) show False
    proof (cases rule: iso_cases)
      case 1
      from s2 eq have "((n @ ''-'') @ [a, b, c]) @ t = (n' @ ''-'') @ replace_colons s'" by simp
      with \<open>length (replace_colons s') = 24\<close> \<open>length t = 24\<close>
      have "(n @ ''-'') @ [a, b, c] = n' @ ''-''" by (simp del: append_assoc)
      then have "c = CHR ''-''" by simp
      with \<open>digit c\<close> not_digit_dash show False by simp
    next
      case (2 a' b' c' t')
      with s2 eq have "((n @ ''-'') @ [a, b, c]) @ t = ((n' @ ''-'') @ [a', b', c']) @ t'" by simp
      with \<open>length t = 24\<close> \<open>length t' = 24\<close>
      have "(n @ ''-'') @ [a, b, c] = (n' @ ''-'') @ [a', b', c']" by (simp del: append_assoc)
      then have "n @ ''-'' = n' @ ''-''" by simp
      with assms(3) show False by simp
    qed
  qed
qed

lemma iso_last: "iso_timestamp s \<Longrightarrow> last (replace_colons s) = CHR ''Z''"
  by (erule iso_cases) auto

lemma iso_nonempty: "iso_timestamp s \<Longrightarrow> replace_colons s \<noteq> []"
  by (erule iso_cases) auto

lemma history_latest_distinct:
  assumes "iso_timestamp s"
  shows "history_name n (replace_colons s) \<noteq> latest_name n'"
proof
  assume "history_name n (replace_colons s) = latest_name n'"
  then have "(n @ ''-'') @ replace_colons s = (n' @ ''-lates'') @ ''t''"
    by (simp add: history_name_def latest_name_def)
  then have "last ((n @ ''-'') @ replace_colons s) = last ((n' @ ''-lates'') @ ''t'')"
    by (rule arg_cong)
  with iso_nonempty [OF assms] iso_last [OF assms] show False
    by (simp del: append_assoc)
qed

lemma latest_names_distinct: "n' \<noteq> n \<Longrightarrow> latest_name n \<noteq> latest_name n'"
  by (simp add: latest_name_def)

text \<open>
  Claim C9. Let \<open>deployedAt\<close> be a timestamp as \<open>toISOString\<close> returns it, and let
  \<open>path.join\<close> give distinct paths for the distinct file names concerned. When
  persistDeployment returns it has written two files, the history file
  \<open><networkName>-<timestamp>.json\<close> and \<open><networkName>-latest.json\<close>, which are distinct
  and hold the same serialization of the record. Whether it returns or throws, every other
  path is left as it was, and so are the files of every other network name: its latest
  record and its history files.
\<close>

theorem persistDeployment_frame:
  assumes run: "persistDeployment rt fs n r = (fs', res)"
    and iso: "iso_timestamp (deployedAt r)"
    and other: "n' \<noteq> n" and iso': "iso_timestamp (deployedAt r')"
    and join: "inj_on (path_join rt (deployments_dir rt))
                 {history_name n (replace_colons (deployedAt r)), latest_name n,
                  history_name n' (replace_colons (deployedAt r')), latest_name n'}"
  shows "(res = Inr () \<longrightarrow>
            files fs' (historyFile rt n r) = Some (JSON_stringify rt (record_js r)) \<and>
            files fs' (latestFile rt n) = Some (JSON_stringify rt (record_js r)) \<and>
            historyFile rt n r \<noteq> latestFile rt n) \<and>
         (\<forall>p. p \<noteq> historyFile rt n r \<and> p \<noteq> latestFile rt n \<longrightarrow> files fs' p = files fs p) \<and>
         files fs' (latestFile rt n') = files fs (latestFile rt n') \<and>
         files fs' (historyFile rt n' r') = files fs (historyFile rt n' r')"
proof -
  let ?j = "path_join rt (deployments_dir rt)"
  let ?h = "history_name n (replace_colons (deployedAt r))"
  let ?h' = "history_name n' (replace_colons (deployedAt r'))"
  have sep: "?j a \<noteq> ?j b"
    if "a \<in> {?h, latest_name n, ?h', latest_name n'}"
       "b \<in> {?h, latest_name n, ?h', latest_name n'}" "a \<noteq> b" for a b
    using inj_onD [OF join _ that(1) that(2)] that(3) by blast
  have d1: "?h \<noteq> latest_name n" "?h \<noteq> latest_name n'" "?h' \<noteq> latest_name n"
    using history_latest_distinct [OF iso] history_latest_distinct [OF iso'] by simp_all
  have d2: "?h \<noteq> ?h'" using history_names_distinct [OF iso iso' other] .
  have d3: "latest_name n \<noteq> latest_name n'" using latest_names_distinct [OF other] .
  have two: "historyFile rt n r \<noteq> latestFile rt n"
    unfolding historyFile_def latestFile_def by (rule sep) (simp_all add: d1)
  have l1: "latestFile rt n' \<noteq> historyFile rt n r"
    unfolding historyFile_def latestFile_def by (rule sep) (use d1 in auto)
  have l2: "latestFile rt n' \<noteq> latestFile rt n"
    unfolding latestFile_def by (rule sep) (use d3 in auto)
  have h1: "historyFile rt n' r' \<noteq> historyFile rt n r"
    unfolding historyFile_def by (rule sep) (use d2 in auto)
  have h2: "historyFile rt n' r' \<noteq> latestFile rt n"
    unfolding historyFile_def latestFile_def by (rule sep) (use d1 in auto)
  have written: "files fs' (historyFile rt n r) = Some (JSON_stringify rt (record_js r)) \<and>
            files fs' (latestFile rt n) = Some (JSON_stringify rt (record_js r))"
    if "res = Inr ()"
    using persist_files [of rt fs n r fs' "()"] run that by simp
  show ?thesis
    using written two persist_frame [OF run] l1 l2 h1 h2 by blast
qed

theorem persistDeployment_frame_witness:
  "snd (persistDeployment demo_node other_fs ''hardhat'' demo_record) = Inr () \<and>
   files (fst (persistDeployment demo_node other_fs ''hardhat'' demo_record))
     ''/repo/deployments/hardhat-2024-01-01T00-00-00.000Z.json'' = Some ''<record>'' \<and>
   files (fst (persistDeployment demo_node other_fs ''hardhat'' demo_record))
     ''/repo/deployments/hardhat-latest.json'' = Some ''<record>'' \<and>
   files (fst (persistDeployment demo_node other_fs ''hardhat'' demo_record))
     ''/repo/deployments/foo-x-latest.json'' = Some ''<record-v2>'' \<and>
   files (fst (persistDeployment demo_node other_fs ''hardhat'' demo_record))
     ''/repo/deployments/foo-x-2024-01-01T00-00-00.000Z.json'' = Some ''<record-v2>''"
proof -
  let ?out = "persistDeployment demo_node other_fs ''hardhat'' demo_record"
  have run: "?out = (fst ?out, snd ?out)" by simp
  have ok: "snd ?out = Inr ()"
    by (simp add: persistDeployment_def Let_def writeFileSync_def existsSync_def other_fs_def
          demo_node_def history_name_def latest_name_def replace_colons_def demo_record_def)
  have iso: "iso_timestamp (deployedAt demo_record)"
    by (simp add: iso_timestamp_def digit_def demo_record_def)
  have ne: "''foo-x'' \<noteq> ''hardhat''" by simp
  have join: "inj_on (path_join demo_node (deployments_dir demo_node))
                 {history_name ''hardhat'' (replace_colons (deployedAt demo_record)),
                  latest_name ''hardhat'',
                  history_name ''foo-x'' (replace_colons (deployedAt demo_record)),
                  latest_name ''foo-x''}"
    by (rule inj_onI) (simp add: demo_node_def)
  have j: "JSON_stringify demo_node (record_js demo_record) = ''<record>''"
    by (simp add: demo_node_def)
  have names: "historyFile demo_node ''hardhat'' demo_record
                 = ''/repo/deployments/hardhat-2024-01-01T00-00-00.000Z.json''"
    "latestFile demo_node ''hardhat'' = ''/repo/deployments/hardhat-latest.json''"
    "latestFile demo_node ''foo-x'' = ''/repo/deployments/foo-x-latest.json''"
    "historyFile demo_node ''foo-x'' demo_record
                 = ''/repo/deployments/foo-x-2024-01-01T00-00-00.000Z.json''"
    by (simp_all add: historyFile_def latestFile_def history_name_def latest_name_def
          replace_colons_def demo_record_def demo_node_def)
  have before: "files other_fs ''/repo/deployments/foo-x-latest.json'' = Some ''<record-v2>''"
    "files other_fs ''/repo/deployments/foo-x-2024-01-01T00-00-00.000Z.json''
       = Some ''<record-v2>''"
    by (simp_all add: other_fs_def)
  from persistDeployment_frame [OF run iso ne iso join] ok
  show ?thesis unfolding j names before by simp
qed

subsection \<open>The command handlers\<close>

text \<open>
  Claim C6. In each of the six command handlers, when the resolution of the contract address
  or the normalization of an input throws, the handler throws and has made no contract call.
\<close>

theorem normalization_precedes_calls:
  "((\<exists>e. resolveContractAddress rt h env fs contract = Inl e) \<or>
     (\<exists>e. normalizeAddress h to ''recipient'' = Inl e) \<or>
     (\<exists>e. normalizeAmount rt h amount decimals raw = Inl e) \<longrightarrow>
      fst (jpyc_mint rt h env fs contract to amount decimals raw) = [] \<and>
      (\<exists>e. snd (jpyc_mint rt h env fs contract to amount decimals raw) = Inl e)) \<and>
   ((\<exists>e. resolveContractAddress rt h env fs contract = Inl e) \<or>
     (\<exists>e. normalizeAddress h to ''recipient'' = Inl e) \<or>
     (\<exists>e. normalizeAmount rt h amount decimals raw = Inl e) \<longrightarrow>
      fst (jpyc_transfer rt h env fs contract to amount decimals raw) = [] \<and>
      (\<exists>e. snd (jpyc_transfer rt h env fs contract to amount decimals raw) = Inl e)) \<and>
   ((\<exists>e. resolveContractAddress rt h env fs contract = Inl e) \<or>
     (\<exists>e. normalizeAmount rt h amount decimals raw = Inl e) \<longrightarrow>
      fst (jpyc_burn rt h env fs contract amount decimals raw) = [] \<and>
      (\<exists>e. snd (jpyc_burn rt h env fs contract amount decimals raw) = Inl e)) \<and>
   ((\<exists>e. admin_resolveContractAddress rt h env fs contract = Inl e) \<or>
     (\<exists>e. admin_normalizeAddress h minter ''minter'' = Inl e) \<or>
     (\<exists>e. admin_normalizeAmount h allowance = Inl e) \<longrightarrow>
      fst (jpyc_configure_minter rt h env fs contract minter allowance) = [] \<and>
      (\<exists>e. snd (jpyc_configure_minter rt h env fs contract minter allowance) = Inl e)) \<and>
   ((\<exists>e. admin_resolveContractAddress rt h env fs contract = Inl e) \<or>
     (\<exists>e. admin_normalizeAddress h minter ''minter'' = Inl e) \<longrightarrow>
      fst (jpyc_remove_minter rt h env fs contract minter) = [] \<and>
      (\<exists>e. snd (jpyc_remove_minter rt h env fs contract minter) = Inl e)) \<and>
   ((\<exists>e. admin_resolveContractAddress rt h env fs contract = Inl e) \<or>
     (\<exists>e. admin_normalizeAddress h address ''role'' = Inl e) \<longrightarrow>
      fst (jpyc_update_roles rt h env fs contract role address) = [] \<and>
      (\<exists>e. snd (jpyc_update_roles rt h env fs contract role address) = Inl e))"
proof (intro conjI)
  show "(\<exists>e. resolveContractAddress rt h env fs contract = Inl e) \<or>
       (\<exists>e. normalizeAddress h to ''recipient'' = Inl e) \<or>
       (\<exists>e. normalizeAmount rt h amount decimals raw = Inl e) \<longrightarrow>
        fst (jpyc_mint rt h env fs contract to amount decimals raw) = [] \<and>
        (\<exists>e. snd (jpyc_mint rt h env fs contract to amount decimals raw) = Inl e)"
    by (auto simp: jpyc_mint_def getTokenContract_def split: sum.splits)
  show "(\<exists>e. resolveContractAddress rt h env fs contract = Inl e) \<or>
       (\<exists>e. normalizeAddress h to ''recipient'' = Inl e) \<or>
       (\<exists>e. normalizeAmount rt h amount decimals raw = Inl e) \<longrightarrow>
        fst (jpyc_transfer rt h env fs contract to amount decimals raw) = [] \<and>
        (\<exists>e. snd (jpyc_transfer rt h env fs contract to amount decimals raw) = Inl e)"
    by (auto simp: jpyc_transfer_def getTokenContract_def split: sum.splits)
  show "(\<exists>e. resolveContractAddress rt h env fs contract = Inl e) \<or>
       (\<exists>e. normalizeAmount rt h amount decimals raw = Inl e) \<longrightarrow>
        fst (jpyc_burn rt h env fs contract amount decimals raw) = [] \<and>
        (\<exists>e. snd (jpyc_burn rt h env fs contract amount decimals raw) = Inl e)"
    by (auto simp: jpyc_burn_def getTokenContract_def split: sum.splits)
  show "(\<exists>e. admin_resolveContractAddress rt h env fs contract = Inl e) \<or>
       (\<exists>e. admin_normalizeAddress h minter ''minter'' = Inl e) \<or>
       (\<exists>e. admin_normalizeAmount h allowance = Inl e) \<longrightarrow>
        fst (jpyc_configure_minter rt h env fs contract minter allowance) = [] \<and>
        (\<exists>e. snd (jpyc_configure_minter rt h env fs contract minter allowance) = Inl e)"
    by (auto simp: jpyc_configure_minter_def admin_getTokenContract_def split: sum.splits)
  show "(\<exists>e. admin_resolveContractAddress rt h env fs contract = Inl e) \<or>
       (\<exists>e. admin_normalizeAddress h minter ''minter'' = Inl e) \<longrightarrow>
        fst (jpyc_remove_minter rt h env fs contract minter) = [] \<and>
        (\<exists>e. snd (jpyc_remove_minter rt h env fs contract minter) = Inl e)"
    by (auto simp: jpyc_remove_minter_def admin_getTokenContract_def split: sum.splits)
  show "(\<exists>e. admin_resolveContractAddress rt h env fs contract = Inl e) \<or>
       (\<exists>e. admin_normalizeAddress h address ''role'' = Inl e) \<longrightarrow>
        fst (jpyc_update_roles rt h env fs contract role address) = [] \<and>
        (\<exists>e. snd (jpyc_update_roles rt h env fs contract role address) = Inl e)"
    by (auto simp: jpyc_update_roles_def admin_getTokenContract_def Let_def split: sum.splits)
qed

theorem normalization_precedes_calls_witness:
  "jpyc_mint demo_node demo_hre Map.empty empty_fs (JStr addr1) (JStr ''0x12'') (JStr ''100'')
     JUndefined True = ([], Inl (InvalidAddress ''recipient'' (JStr ''0x12''))) \<and>
   jpyc_burn demo_node demo_hre Map.empty empty_fs (JStr addr1) (JStr ''100'')
     (JNum (Fin 300)) False = ([], Inl DecimalsRange) \<and>
   jpyc_configure_minter demo_node demo_hre Map.empty empty_fs (JStr addr1) (JStr addr2)
     (JStr ''-5'') = ([], Inl AllowanceNegative) \<and>
   jpyc_update_roles demo_node demo_hre Map.empty empty_fs JUndefined ''owner'' (JStr addr2)
     = ([], Inl UnableToDetermine)"
proof -
  note defs = demo_hre_def demo_node_def addr1_def addr1_lower_def addr2_def addr2_lower_def
    ZERO_ADDRESS_def toLowerCase_def lower_char_def
  have 1: "normalizeAddress demo_hre (JStr ''0x12'') ''recipient''
             = Inl (InvalidAddress ''recipient'' (JStr ''0x12''))"
    by (simp add: normalizeAddress_def defs)
  have 2: "normalizeAmount demo_node demo_hre (JStr ''100'') (JNum (Fin 300)) False
             = Inl DecimalsRange"
    by (simp add: normalizeAmount_def js_nullish_def decimals_rejected_def)
  have 3: "admin_normalizeAmount demo_hre (JStr ''-5'') = Inl AllowanceNegative"
    by (simp add: admin_normalizeAmount_def demo_hre_def)
  have 4: "admin_resolveContractAddress demo_node demo_hre Map.empty empty_fs JUndefined
             = Inl UnableToDetermine"
    by (rule admin_resolve_unable [where contents = "[]" and parsed = JNull and a = JNull])
       (simp_all add: empty_fs_def existsSync_def)
  have a: "fst (jpyc_mint demo_node demo_hre Map.empty empty_fs (JStr addr1) (JStr ''0x12'')
             (JStr ''100'') JUndefined True) = []"
    using normalization_precedes_calls [of demo_node demo_hre Map.empty empty_fs "JStr addr1"
        "JStr ''0x12''" "JStr ''100''" JUndefined True] 1
    by simp
  have b: "fst (jpyc_burn demo_node demo_hre Map.empty empty_fs (JStr addr1) (JStr ''100'')
             (JNum (Fin 300)) False) = []"
    using normalization_precedes_calls [of demo_node demo_hre Map.empty empty_fs "JStr addr1"
        _ "JStr ''100''" "JNum (Fin 300)" False] 2
    by simp
  have c: "fst (jpyc_configure_minter demo_node demo_hre Map.empty empty_fs (JStr addr1)
             (JStr addr2) (JStr ''-5'')) = []"
    using normalization_precedes_calls [where rt = demo_node and h = demo_hre
        and env = Map.empty and fs = empty_fs and contract = "JStr addr1"
        and minter = "JStr addr2" and allowance = "JStr ''-5''"] 3
    by simp
  have d: "fst (jpyc_update_roles demo_node demo_hre Map.empty empty_fs JUndefined ''owner''
             (JStr addr2)) = []"
    using normalization_precedes_calls [where rt = demo_node and h = demo_hre
        and env = Map.empty and fs = empty_fs and contract = JUndefined
        and role = "''owner''" and address = "JStr addr2"] 4
    by simp
  have r1: "resolveContractAddress demo_node demo_hre Map.empty empty_fs (JStr addr1) = Inr addr1"
    by (simp add: resolve_explicit defs)
  have r2: "admin_resolveContractAddress demo_node demo_hre Map.empty empty_fs (JStr addr1)
      = Inr addr1"
    by (simp add: admin_resolve_explicit defs)
  have n2: "admin_normalizeAddress demo_hre (JStr addr2) ''minter'' = Inr addr2"
    by (simp add: admin_normalizeAddress_def defs)
  have gc: "\<And>n a. getContractAt demo_hre n a = Inr (demo_contract a)"
    by (simp add: demo_hre_def)
  have sa: "snd (jpyc_mint demo_node demo_hre Map.empty empty_fs (JStr addr1) (JStr ''0x12'')
             (JStr ''100'') JUndefined True) = Inl (InvalidAddress ''recipient'' (JStr ''0x12''))"
    by (simp add: jpyc_mint_def getTokenContract_def r1 1 gc)
  have sb: "snd (jpyc_burn demo_node demo_hre Map.empty empty_fs (JStr addr1) (JStr ''100'')
             (JNum (Fin 300)) False) = Inl DecimalsRange"
    by (simp add: jpyc_burn_def getTokenContract_def r1 2 gc)
  have sc: "snd (jpyc_configure_minter demo_node demo_hre Map.empty empty_fs (JStr addr1)
             (JStr addr2) (JStr ''-5'')) = Inl AllowanceNegative"
    by (simp add: jpyc_configure_minter_def admin_getTokenContract_def r2 n2 3 gc)
  have sd: "snd (jpyc_update_roles demo_node demo_hre Map.empty empty_fs JUndefined ''owner''
             (JStr addr2)) = Inl UnableToDetermine"
    by (simp add: jpyc_update_roles_def admin_getTokenContract_def 4)
  show ?thesis
    using a b c d sa sb sc sd by (simp add: prod_eq_iff)
qed

subsection \<open>Amounts\<close>

text \<open>
  What the two normalizeAmount functions do about the sign. The one of admin.js, used by
  jpyc:configure-minter, returns the value of \<open>BigNumber.from(amount)\<close> when that is not
  negative and throws \<open>Allowance amount must be non-negative\<close> otherwise, so that
  configure-minter never calls the contract with a negative allowance. The one of actions.js,
  used by jpyc:mint, jpyc:transfer and jpyc:burn, compares nothing with zero: with the raw
  flag it is \<open>BigNumber.from(amount)\<close>, and without it \<open>parseUnits(amount, decimals)\<close>
  once the decimals are accepted.
\<close>

lemma amounts_sign_check:
  "(admin_normalizeAmount h amount = Inr v \<longrightarrow> 0 \<le> v \<and> BigNumber_from h amount = Inr v) \<and>
   (BigNumber_from h amount = Inr v \<and> v < 0 \<longrightarrow>
      admin_normalizeAmount h amount = Inl AllowanceNegative \<and>
      fst (jpyc_configure_minter rt h env fs contract minter amount) = []) \<and>
   (Call a m [AddrArg x, NumArg v]
      \<in> set (fst (jpyc_configure_minter rt h env fs contract minter amount)) \<longrightarrow> 0 \<le> v) \<and>
   normalizeAmount rt h amount decimals True = BigNumber_from h amount \<and>
   (ToNumber rt (js_nullish decimals DEFAULT_DECIMALS) = Inr d \<and> \<not> decimals_rejected d \<longrightarrow>
      normalizeAmount rt h amount decimals False = parseUnits h amount (to_nat d))"
proof (intro conjI impI)
  show "0 \<le> v" if "admin_normalizeAmount h amount = Inr v"
    using that by (auto simp: admin_normalizeAmount_def split: sum.splits if_splits)
  show "BigNumber_from h amount = Inr v" if "admin_normalizeAmount h amount = Inr v"
    using that by (auto simp: admin_normalizeAmount_def split: sum.splits if_splits)
  show "admin_normalizeAmount h amount = Inl AllowanceNegative"
    if "BigNumber_from h amount = Inr v \<and> v < 0"
    using that by (simp add: admin_normalizeAmount_def)
  show "fst (jpyc_configure_minter rt h env fs contract minter amount) = []"
    if "BigNumber_from h amount = Inr v \<and> v < 0"
    using that
    by (auto simp: jpyc_configure_minter_def admin_normalizeAmount_def split: sum.splits)
  show "0 \<le> v"
    if "Call a m [AddrArg x, NumArg v]
          \<in> set (fst (jpyc_configure_minter rt h env fs contract minter amount))"
    using that
    by (auto simp: jpyc_configure_minter_def admin_normalizeAmount_def invoke_def
          split: sum.splits if_splits)
  show "normalizeAmount rt h amount decimals True = BigNumber_from h amount"
    by (simp add: normalizeAmount_def)
  show "normalizeAmount rt h amount decimals False = parseUnits h amount (to_nat d)"
    if "ToNumber rt (js_nullish decimals DEFAULT_DECIMALS) = Inr d \<and> \<not> decimals_rejected d"
    using that by (simp add: normalizeAmount_def)
qed

lemma amounts_sign_check_demo:
  "admin_normalizeAmount demo_hre (JStr ''100'') = Inr 100 \<and>
   admin_normalizeAmount demo_hre (JStr ''-5'') = Inl AllowanceNegative \<and>
   fst (jpyc_configure_minter demo_node demo_hre Map.empty empty_fs (JStr addr1) (JStr addr2)
          (JStr ''-5'')) = [] \<and>
   normalizeAmount demo_node demo_hre (JStr ''-5'') JUndefined True = Inr (- 5) \<and>
   normalizeAmount demo_node demo_hre (JStr ''-1'') JUndefined False
     = Inr (- 1000000000000000000)"
proof -
  have b: "BigNumber_from demo_hre (JStr ''-5'') = Inr (- 5)" by (simp add: demo_hre_def)
  have p: "parseUnits demo_hre (JStr ''-1'') 18 = Inr (- 1000000000000000000)"
    by (simp add: demo_hre_def)
  have d: "ToNumber demo_node (js_nullish JUndefined DEFAULT_DECIMALS) = Inr (Fin 18)"
    by (simp add: js_nullish_def DEFAULT_DECIMALS_def)
  have ok: "\<not> decimals_rejected (Fin 18)" by (simp add: decimals_rejected_def)
  have n: "to_nat (Fin 18) = 18" by simp
  have c: "admin_normalizeAmount demo_hre (JStr ''100'') = Inr 100"
    by (simp add: admin_normalizeAmount_def demo_hre_def)
  show ?thesis
    using amounts_sign_check [of demo_hre "JStr ''-5''" "- 5" demo_node Map.empty empty_fs
            "JStr addr1" "JStr addr2" _ _ _ JUndefined "Fin 18"]
          amounts_sign_check [of demo_hre "JStr ''-1''" _ demo_node Map.empty empty_fs
            "JStr addr1" "JStr addr2" _ _ _ JUndefined "Fin 18"]
          b p d ok n c
    by simp
qed

text \<open>
  Claim C7 at negative amounts. jpyc:mint with the raw amount \<open>-5\<close> and jpyc:burn with
  the decimal amount \<open>-1\<close> are not rejected by normalization: normalizeAmount returns the
  negative value and the command passes it to the contract method. The normalizeAmount of
  admin.js rejects the same raw amount.
\<close>

theorem negative_amount_reaches_contract:
  "normalizeAmount demo_node demo_hre (JStr ''-5'') JUndefined True = Inr (- 5) \<and>
   fst (jpyc_mint demo_node demo_hre Map.empty empty_fs (JStr addr1) (JStr addr2) (JStr ''-5'')
          JUndefined True)
     = [Call addr1 ''mint'' [AddrArg addr2, NumArg (- 5)]] \<and>
   normalizeAmount demo_node demo_hre (JStr ''-1'') JUndefined False
     = Inr (- 1000000000000000000) \<and>
   fst (jpyc_burn demo_node demo_hre Map.empty empty_fs (JStr addr1) (JStr ''-1'') JUndefined
          False)
     = [Call addr1 ''burn'' [NumArg (- 1000000000000000000)]] \<and>
   admin_normalizeAmount demo_hre (JStr ''-5'') = Inl AllowanceNegative"
proof -
  note defs = demo_hre_def addr1_def addr1_lower_def addr2_def addr2_lower_def
    ZERO_ADDRESS_def toLowerCase_def lower_char_def
  have r: "resolveContractAddress demo_node demo_hre Map.empty empty_fs (JStr addr1) = Inr addr1"
    by (simp add: resolve_explicit defs)
  have gc: "\<And>n a. getContractAt demo_hre n a = Inr (demo_contract a)"
    by (simp add: demo_hre_def)
  have na: "normalizeAddress demo_hre (JStr addr2) ''recipient'' = Inr addr2"
    by (simp add: normalizeAddress_def defs)
  have a1: "normalizeAmount demo_node demo_hre (JStr ''-5'') JUndefined True = Inr (- 5)"
    by (simp add: normalizeAmount_def demo_hre_def)
  have a2: "normalizeAmount demo_node demo_hre (JStr ''-1'') JUndefined False
      = Inr (- 1000000000000000000)"
    by (simp add: normalizeAmount_def js_nullish_def DEFAULT_DECIMALS_def decimals_rejected_def
          demo_hre_def)
  have ad: "admin_normalizeAmount demo_hre (JStr ''-5'') = Inl AllowanceNegative"
    by (simp add: admin_normalizeAmount_def demo_hre_def)
  show ?thesis
    by (simp add: jpyc_mint_def jpyc_burn_def getTokenContract_def r gc na a1 a2 invoke_def ad
          demo_contract_def)
qed

subsection \<open>Role updates\<close>

text \<open>For a role of the mapping the command makes the one call the mapping names, and for
  a role that is neither in the mapping nor a property name of \<open>Object.prototype\<close> it throws
  \<open>Unsupported role\<close> without a call.\<close>

lemma update_roles_supported:
  assumes "admin_resolveContractAddress rt h env fs contract = Inr a"
    and "getContractAt h ''FiatTokenV2'' a = Inr token"
    and "admin_normalizeAddress h address ''role'' = Inr newAddress"
    and "map_of roleMap (String_toLowerCase rt (String_trim rt role)) = Some (JStr m)"
    and "m \<noteq> []"
  shows "jpyc_update_roles rt h env fs contract role address
           = invoke h token m [AddrArg newAddress]"
  using assms
  by (simp add: jpyc_update_roles_def admin_getTokenContract_def obj_get_def)

lemma update_roles_unsupported:
  assumes "admin_resolveContractAddress rt h env fs contract = Inr a"
    and "getContractAt h ''FiatTokenV2'' a = Inr token"
    and "admin_normalizeAddress h address ''role'' = Inr newAddress"
    and "map_of roleMap (String_toLowerCase rt (String_trim rt role)) = None"
    and "String_toLowerCase rt (String_trim rt role) \<notin> set Object_prototype_keys"
  shows "jpyc_update_roles rt h env fs contract role address = ([], Inl (UnsupportedRole role))"
  using assms
  by (simp add: jpyc_update_roles_def admin_getTokenContract_def obj_get_def)

text \<open>
  Claim C5 on the role \<open>constructor\<close>, which is not one of the six supported roles. The
  read \<open>roleMap['constructor']\<close> finds the function that the object literal inherits from
  \<open>Object.prototype\<close>, the guard \<open>if (!method)\<close> is passed, and the command fails with a
  type error at \<open>token[method](newAddress)\<close> instead of \<open>Unsupported role\<close>. No contract
  call is made.
\<close>

theorem update_roles_inherited_key:
  "jpyc_update_roles demo_node demo_hre Map.empty empty_fs (JStr addr1) ''constructor''
     (JStr addr2)
     = ([], Inl (TypeError ''function Object() { [native code] } is not a function''))"
proof -
  note defs = demo_hre_def addr1_def addr1_lower_def addr2_def addr2_lower_def
    ZERO_ADDRESS_def toLowerCase_def lower_char_def
  have r: "admin_resolveContractAddress demo_node demo_hre Map.empty empty_fs (JStr addr1)
      = Inr addr1"
    by (simp add: admin_resolve_explicit defs)
  have gc: "\<And>n a. getContractAt demo_hre n a = Inr (demo_contract a)"
    by (simp add: demo_hre_def)
  have na: "admin_normalizeAddress demo_hre (JStr addr2) ''role'' = Inr addr2"
    by (simp add: admin_normalizeAddress_def defs)
  have role: "String_toLowerCase demo_node (String_trim demo_node ''constructor'')
      = ''constructor''"
    by (simp add: demo_String_trim demo_String_toLowerCase toLowerCase_def ascii_trim_def
          is_space_def lower_char_def)
  have m: "obj_get roleMap ''constructor'' = JNative ''constructor''"
    by (simp add: obj_get_def roleMap_def Object_prototype_keys_def)
  show ?thesis
    by (simp add: jpyc_update_roles_def admin_getTokenContract_def r gc na role m invoke_def
          demo_contract_def)
qed


subsection \<open>The decimals limit\<close>

lemma decimals_rejected_iff:
  "decimals_rejected d \<longleftrightarrow> \<not> (\<exists>k::int. 0 \<le> k \<and> k \<le> 255 \<and> d = Fin (of_int k))"
proof (cases d)
  case (Fin q)
  show ?thesis
  proof (cases "of_int \<lfloor>q\<rfloor> = q")
    case True
    then obtain k :: int where q: "q = of_int k" by metis
    show ?thesis unfolding Fin q by (auto simp: decimals_rejected_def)
  next
    case False
    then have "\<And>k::int. q \<noteq> of_int k" by auto
    with False show ?thesis unfolding Fin by (auto simp: decimals_rejected_def)
  qed
qed (auto simp: decimals_rejected_def)

lemma forEach_required_obj:
  assumes "forEach (check_required rt b source) REQUIRED_FIELDS = Inr u"
  shows "\<exists>kvs. source = JObj kvs"
  using assms
  by (cases source) (auto simp: REQUIRED_FIELDS_def check_required_def split: sum.splits)

text \<open>
  Claim C10. The decimals limit is enforced on the non-raw path only. When the completeness
  check of loadParams has passed and \<open>Number(decimals)\<close> is not an integer between 0 and
  255, loadParams throws \<open>decimals must be an integer between 0 and 255\<close>; so does the
  non-raw branch of the normalizeAmount of actions.js, for \<open>Number(decimals ?? 18)\<close>. With
  the raw flag normalizeAmount is \<open>BigNumber.from(amount)\<close> for every value of decimals.
\<close>

theorem decimals_limit:
  "(resolve_source rt env fs paramsPath = Inr source \<and>
    forEach (check_required rt (truthy paramsPath) source) REQUIRED_FIELDS = Inr () \<and>
    js_get source ''decimals'' = Inr dv \<and> ToNumber rt dv = Inr d \<and>
    \<not> (\<exists>k::int. 0 \<le> k \<and> k \<le> 255 \<and> d = Fin (of_int k)) \<longrightarrow>
      loadParams rt h env fs paramsPath = Inl DecimalsRange) \<and>
   (ToNumber rt (js_nullish decimals DEFAULT_DECIMALS) = Inr d \<and>
    \<not> (\<exists>k::int. 0 \<le> k \<and> k \<le> 255 \<and> d = Fin (of_int k)) \<longrightarrow>
      normalizeAmount rt h amount decimals False = Inl DecimalsRange) \<and>
   normalizeAmount rt h amount decimals True = BigNumber_from h amount"
proof (intro conjI impI)
  assume a: "resolve_source rt env fs paramsPath = Inr source \<and>
    forEach (check_required rt (truthy paramsPath) source) REQUIRED_FIELDS = Inr () \<and>
    js_get source ''decimals'' = Inr dv \<and> ToNumber rt dv = Inr d \<and>
    \<not> (\<exists>k::int. 0 \<le> k \<and> k \<le> 255 \<and> d = Fin (of_int k))"
  then obtain kvs where s: "source = JObj kvs" using forEach_required_obj by blast
  from a have r: "decimals_rejected d" by (simp add: decimals_rejected_iff)
  from a s have dv: "obj_get kvs ''decimals'' = dv" by simp
  from a s r dv show "loadParams rt h env fs paramsPath = Inl DecimalsRange"
    by (simp add: loadParams_def Let_def)
next
  assume "ToNumber rt (js_nullish decimals DEFAULT_DECIMALS) = Inr d \<and>
    \<not> (\<exists>k::int. 0 \<le> k \<and> k \<le> 255 \<and> d = Fin (of_int k))"
  then show "normalizeAmount rt h amount decimals False = Inl DecimalsRange"
    by (simp add: normalizeAmount_def decimals_rejected_iff)
next
  show "normalizeAmount rt h amount decimals True = BigNumber_from h amount"
    by (simp add: normalizeAmount_def)
qed


lemma readFromEnv_env_300:
  "readFromEnv env_300 =
     JObj [(''name'', JStr ''JPY Coin''), (''symbol'', JStr ''JPYC''), (''currency'', JStr ''JPY''),
           (''decimals'', JStr ''300''), (''minterAdmin'', JStr addr2_lower),
           (''pauser'', JStr addr2_lower), (''blocklister'', JStr addr2_lower),
           (''rescuer'', JStr addr2_lower), (''owner'', JStr addr2_lower)]"
  by (simp add: readFromEnv_def env_300_def demo_env_def ENV_KEYS_def)

theorem decimals_limit_witness:
  "loadParams demo_node demo_hre env_300 empty_fs JUndefined = Inl DecimalsRange \<and>
   normalizeAmount demo_node demo_hre (JStr ''1'') (JNum (Fin 300)) False = Inl DecimalsRange \<and>
   normalizeAmount demo_node demo_hre (JStr ''100'') (JNum (Fin 300)) True = Inr 100"
proof -
  have src: "resolve_source demo_node env_300 empty_fs JUndefined = Inr (readFromEnv env_300)"
    by (simp add: resolve_source_def)
  have chk: "forEach (check_required demo_node (truthy JUndefined) (readFromEnv env_300))
               REQUIRED_FIELDS = Inr ()"
    by (simp add: readFromEnv_env_300 REQUIRED_FIELDS_def check_required_def obj_get_def
          demo_String_trim ascii_trim_def is_space_def addr2_lower_def)
  have dv: "js_get (readFromEnv env_300) ''decimals'' = Inr (JStr ''300'')"
    by (simp add: readFromEnv_env_300 obj_get_def)
  have d: "ToNumber demo_node (JStr ''300'') = Inr (Fin 300)"
    by (simp add: demo_node_def)
  have out: "\<not> (\<exists>k::int. 0 \<le> k \<and> k \<le> 255 \<and> Fin 300 = Fin (of_int k))"
    by auto
  have d2: "ToNumber demo_node (js_nullish (JNum (Fin 300)) DEFAULT_DECIMALS) = Inr (Fin 300)"
    by (simp add: js_nullish_def)
  have b: "BigNumber_from demo_hre (JStr ''100'') = Inr 100"
    by (simp add: demo_hre_def)
  show ?thesis
    using decimals_limit [of demo_node env_300 empty_fs JUndefined "readFromEnv env_300"
            "JStr ''300''" "Fin 300" demo_hre "JNum (Fin 300)" "JStr ''1''"]
          decimals_limit [of demo_node env_300 empty_fs JUndefined "readFromEnv env_300"
            "JStr ''300''" "Fin 300" demo_hre "JNum (Fin 300)" "JStr ''100''"]
          src chk dv d out d2 b
    by simp
qed


subsection \<open>The parameter loader\<close>

lemma collect_Inl: "collect rs = Inl e \<Longrightarrow> Inl e \<in> set rs"
  by (induction rs rule: collect.induct) (auto split: sum.splits)

lemma ToString_error: "ToString rt v = Inl e \<Longrightarrow> \<exists>m. e = TypeError m"
proof (induction rt v arbitrary: e rule: ToString.induct)
  case (6 rt xs)
  from "6.prems" have
    "collect (map (\<lambda>x. if x = JUndefined \<or> x = JNull then Inr [] else ToString rt x) xs) = Inl e"
    by (auto split: sum.splits)
  then have "Inl e \<in> set (map (\<lambda>x. if x = JUndefined \<or> x = JNull then Inr [] else ToString rt x) xs)"
    by (rule collect_Inl)
  then obtain x where "x \<in> set xs" "\<not> (x = JUndefined \<or> x = JNull)" "ToString rt x = Inl e"
    by (auto split: if_splits)
  then show ?case using "6.IH" by blast
qed (auto split: if_splits)

lemma ToNumber_error: "ToNumber rt v = Inl e \<Longrightarrow> \<exists>m. e = TypeError m"
  by (cases v) (auto simp del: ToString.simps split: sum.splits dest: ToString_error)

lemma normalize_addresses_error:
  "normalize_addresses rt h n ks = Inl e \<Longrightarrow> e \<noteq> Missing hint"
  by (induction rt h n ks rule: normalize_addresses.induct)
     (auto simp: Let_def split: sum.splits if_splits dest: ToString_error)

lemma trim_field_error: "trim_field rt n k = Inl e \<Longrightarrow> \<exists>m. e = TypeError m"
  by (auto simp: trim_field_def split: sum.splits dest: ToString_error)

lemma loadParams_after_check:
  assumes "resolve_source rt env fs pp = Inr source"
    and "forEach (check_required rt (truthy pp) source) REQUIRED_FIELDS = Inr u"
  shows "loadParams rt h env fs pp \<noteq> Inl (Missing hint)"
  using assms
  by (auto simp: loadParams_def Let_def simp del: normalize_addresses.simps
        split: sum.splits if_splits
        dest: ToNumber_error normalize_addresses_error trim_field_error)

lemma loadParams_check_fails:
  assumes "resolve_source rt env fs pp = Inr source"
    and "forEach (check_required rt (truthy pp) source) REQUIRED_FIELDS = Inl e"
  shows "loadParams rt h env fs pp = Inl e"
  using assms by (simp add: loadParams_def)

lemma forEach_first_error:
  "(\<And>x. x \<in> set xs \<Longrightarrow> f x = Inr () \<or> (\<exists>hint. f x = Inl (Missing hint))) \<Longrightarrow>
   (if \<forall>x\<in>set xs. f x = Inr () then forEach f xs = Inr ()
    else \<exists>hint. forEach f xs = Inl (Missing hint))"
proof (induction xs)
  case Nil
  then show ?case by simp
next
  case (Cons x xs)
  have "f x = Inr () \<or> (\<exists>hint. f x = Inl (Missing hint))"
    using Cons.prems by simp
  moreover have "if \<forall>x\<in>set xs. f x = Inr () then forEach f xs = Inr ()
    else \<exists>hint. forEach f xs = Inl (Missing hint)"
    using Cons by simp
  ultimately show ?case by (auto split: if_splits)
qed


lemma js_get_total:
  "source \<noteq> JNull \<Longrightarrow> source \<noteq> JUndefined \<Longrightarrow> \<exists>v. js_get source f = Inr v"
  by (cases source) auto

lemma check_required_cases:
  assumes "js_get source f = Inr v" and "\<exists>s. ToString rt v = Inr s"
  shows "(if v = JUndefined \<or> v = JNull \<or> (\<exists>s. ToString rt v = Inr s \<and> String_trim rt s = [])
          then check_required rt b source f = Inl (Missing (missing_hint b f))
          else check_required rt b source f = Inr ())"
  using assms by (auto simp: check_required_def)

lemma loadParams_missing_source:
  assumes src: "resolve_source rt env fs paramsPath = Inr source"
    and nn: "source \<noteq> JNull" and nu: "source \<noteq> JUndefined"
    and conv: "\<forall>f\<in>set REQUIRED_FIELDS. \<forall>v. js_get source f = Inr v \<longrightarrow>
                 (\<exists>s. ToString rt v = Inr s)"
  shows "(\<exists>hint. loadParams rt h env fs paramsPath = Inl (Missing hint)) \<longleftrightarrow>
         (\<exists>f\<in>set REQUIRED_FIELDS. \<exists>v. js_get source f = Inr v \<and>
            (v = JUndefined \<or> v = JNull \<or> (\<exists>s. ToString rt v = Inr s \<and> String_trim rt s = [])))"
proof -
  let ?chk = "check_required rt (truthy paramsPath) source"
  let ?blank = "\<lambda>f. \<exists>v. js_get source f = Inr v \<and>
            (v = JUndefined \<or> v = JNull \<or> (\<exists>s. ToString rt v = Inr s \<and> String_trim rt s = []))"
  have each: "(if ?blank f then ?chk f = Inl (Missing (missing_hint (truthy paramsPath) f))
               else ?chk f = Inr ())" if "f \<in> set REQUIRED_FIELDS" for f
  proof -
    obtain v where v: "js_get source f = Inr v" using js_get_total [OF nn nu] by blast
    with conv that have "\<exists>s. ToString rt v = Inr s" by blast
    from check_required_cases [OF v this, of "truthy paramsPath"] v show ?thesis by simp
  qed
  then have alt: "\<And>f. f \<in> set REQUIRED_FIELDS \<Longrightarrow>
      ?chk f = Inr () \<or> (\<exists>hint. ?chk f = Inl (Missing hint))"
    by (metis (lifting))
  have fe: "(if \<forall>f\<in>set REQUIRED_FIELDS. ?chk f = Inr () then forEach ?chk REQUIRED_FIELDS = Inr ()
             else \<exists>hint. forEach ?chk REQUIRED_FIELDS = Inl (Missing hint))"
    by (rule forEach_first_error) (rule alt)
  show ?thesis
  proof (cases "\<forall>f\<in>set REQUIRED_FIELDS. ?chk f = Inr ()")
    case True
    with fe have "forEach ?chk REQUIRED_FIELDS = Inr ()" by simp
    then have "\<And>hint. loadParams rt h env fs paramsPath \<noteq> Inl (Missing hint)"
      using loadParams_after_check [OF src] by blast
    moreover have "\<not> ?blank f" if "f \<in> set REQUIRED_FIELDS" for f
      using each [OF that] True that by (auto split: if_splits)
    ultimately show ?thesis by blast
  next
    case False
    with fe obtain hint where "forEach ?chk REQUIRED_FIELDS = Inl (Missing hint)" by auto
    then have "loadParams rt h env fs paramsPath = Inl (Missing hint)"
      using loadParams_check_fails [OF src] by blast
    moreover from False obtain f where f: "f \<in> set REQUIRED_FIELDS" "?chk f \<noteq> Inr ()" by blast
    then have "?blank f" using each [OF f(1)] by (auto split: if_splits)
    ultimately show ?thesis using f(1) by blast
  qed
qed

lemma map_of_env_entries:
  "distinct (map fst xs) \<Longrightarrow>
   map_of (List.map_filter
            (\<lambda>(field, envKey). case env envKey of Some v \<Rightarrow> Some (field, JStr v) | None \<Rightarrow> None)
            xs) f =
     (case map_of xs f of None \<Rightarrow> None | Some k \<Rightarrow> map_option JStr (env k))"
proof (induction xs)
  case Nil
  then show ?case by simp
next
  case (Cons x xs)
  obtain f' k' where x: "x = (f', k')" by (cases x)
  from Cons.prems x have nin: "map_of xs f' = None"
    by (simp add: map_of_eq_None_iff)
  from Cons.prems x have rest: "distinct (map fst xs)" by simp
  show ?case
  proof (cases "f = f'")
    case True
    with nin have "map_of xs f = None" by simp
    with Cons.IH [OF rest] True show ?thesis
      by (simp add: x split: option.splits)
  next
    case False
    with Cons.IH [OF rest] show ?thesis
      by (simp add: x split: option.splits)
  qed
qed

lemma readFromEnv_get:
  assumes "(f, k) \<in> set ENV_KEYS"
  shows "js_get (readFromEnv env) f = Inr (env_get env k)"
proof -
  have d: "distinct (map fst ENV_KEYS)" by (simp add: ENV_KEYS_def)
  from assms d have m: "map_of ENV_KEYS f = Some k" by simp
  from assms have np: "f \<notin> set Object_prototype_keys"
    by (auto simp: ENV_KEYS_def Object_prototype_keys_def)
  show ?thesis
    by (simp add: readFromEnv_def obj_get_def map_of_env_entries [OF d] m np env_get_def
          split: option.splits)
qed

lemma REQUIRED_FIELDS_ENV_KEYS: "REQUIRED_FIELDS = map fst ENV_KEYS"
  by (simp add: REQUIRED_FIELDS_def ENV_KEYS_def)

lemma loadParams_missing_env:
  assumes "\<not> truthy paramsPath"
  shows "(\<exists>hint. loadParams rt h env fs paramsPath = Inl (Missing hint)) \<longleftrightarrow>
         (\<exists>(f, k)\<in>set ENV_KEYS. env k = None \<or> (\<exists>s. env k = Some s \<and> String_trim rt s = []))"
proof -
  have src: "resolve_source rt env fs paramsPath = Inr (readFromEnv env)"
    using assms by (simp add: resolve_source_def)
  have get: "\<And>f. f \<in> set REQUIRED_FIELDS \<Longrightarrow>
      \<exists>k. (f, k) \<in> set ENV_KEYS \<and> js_get (readFromEnv env) f = Inr (env_get env k)"
    using readFromEnv_get by (auto simp: REQUIRED_FIELDS_ENV_KEYS)
  have conv: "\<forall>f\<in>set REQUIRED_FIELDS. \<forall>v. js_get (readFromEnv env) f = Inr v \<longrightarrow>
                 (\<exists>s. ToString rt v = Inr s)"
  proof (intro ballI allI impI)
    fix f v assume "f \<in> set REQUIRED_FIELDS" "js_get (readFromEnv env) f = Inr v"
    with get obtain k where "v = env_get env k" by fastforce
    then show "\<exists>s. ToString rt v = Inr s" by (auto simp: env_get_def split: option.splits)
  qed
  have "(\<exists>hint. loadParams rt h env fs paramsPath = Inl (Missing hint)) \<longleftrightarrow>
         (\<exists>f\<in>set REQUIRED_FIELDS. \<exists>v. js_get (readFromEnv env) f = Inr v \<and>
            (v = JUndefined \<or> v = JNull \<or> (\<exists>s. ToString rt v = Inr s \<and> String_trim rt s = [])))"
    by (rule loadParams_missing_source [OF src _ _ conv]) (simp_all add: readFromEnv_def)
  also have "\<dots> \<longleftrightarrow> (\<exists>(f, k)\<in>set ENV_KEYS. env k = None \<or> (\<exists>s. env k = Some s \<and> String_trim rt s = []))"
  proof
    assume "\<exists>f\<in>set REQUIRED_FIELDS. \<exists>v. js_get (readFromEnv env) f = Inr v \<and>
            (v = JUndefined \<or> v = JNull \<or> (\<exists>s. ToString rt v = Inr s \<and> String_trim rt s = []))"
    then obtain f v where f: "f \<in> set REQUIRED_FIELDS" "js_get (readFromEnv env) f = Inr v"
      and b: "v = JUndefined \<or> v = JNull \<or> (\<exists>s. ToString rt v = Inr s \<and> String_trim rt s = [])"
      by blast
    from get [OF f(1)] f(2) obtain k where k: "(f, k) \<in> set ENV_KEYS" "v = env_get env k"
      by fastforce
    from b k(2) have "env k = None \<or> (\<exists>s. env k = Some s \<and> String_trim rt s = [])"
      by (auto simp: env_get_def split: option.splits)
    with k(1) show "\<exists>(f, k)\<in>set ENV_KEYS. env k = None \<or> (\<exists>s. env k = Some s \<and> String_trim rt s = [])"
      by blast
  next
    assume "\<exists>(f, k)\<in>set ENV_KEYS. env k = None \<or> (\<exists>s. env k = Some s \<and> String_trim rt s = [])"
    then obtain f k where k: "(f, k) \<in> set ENV_KEYS"
      and b: "env k = None \<or> (\<exists>s. env k = Some s \<and> String_trim rt s = [])" by blast
    from k have f: "f \<in> set REQUIRED_FIELDS" by (force simp: REQUIRED_FIELDS_ENV_KEYS)
    have g: "js_get (readFromEnv env) f = Inr (env_get env k)" by (rule readFromEnv_get [OF k])
    from b have "env_get env k = JUndefined \<or> env_get env k = JNull \<or>
       (\<exists>s. ToString rt (env_get env k) = Inr s \<and> String_trim rt s = [])"
      by (auto simp: env_get_def)
    with f g show "\<exists>f\<in>set REQUIRED_FIELDS. \<exists>v. js_get (readFromEnv env) f = Inr v \<and>
            (v = JUndefined \<or> v = JNull \<or> (\<exists>s. ToString rt v = Inr s \<and> String_trim rt s = []))"
      by blast
  qed
  finally show ?thesis .
qed

text \<open>
  Claim C4. loadParams throws a \<open>Missing\<close> error if and only if one of the nine required
  fields of the resolved source is \<open>undefined\<close>, \<open>null\<close>, or blank after \<open>String\<close>
  conversion and trimming, the trimming being \<open>String.prototype.trim\<close> of the runtime. For a source read from a file this is stated for a source that
  has properties (it is not \<open>null\<close>) and whose required values convert to strings; for the
  environment source it is stated on the environment itself: a variable of \<open>ENV_KEYS\<close> is
  unset or blank.
\<close>

theorem loadParams_missing:
  "(resolve_source rt env fs paramsPath = Inr source \<and> source \<noteq> JNull \<and> source \<noteq> JUndefined \<and>
    (\<forall>f\<in>set REQUIRED_FIELDS. \<forall>v. js_get source f = Inr v \<longrightarrow> (\<exists>s. ToString rt v = Inr s)) \<longrightarrow>
      ((\<exists>hint. loadParams rt h env fs paramsPath = Inl (Missing hint)) \<longleftrightarrow>
       (\<exists>f\<in>set REQUIRED_FIELDS. \<exists>v. js_get source f = Inr v \<and>
          (v = JUndefined \<or> v = JNull \<or> (\<exists>s. ToString rt v = Inr s \<and> String_trim rt s = []))))) \<and>
   (\<not> truthy paramsPath \<longrightarrow>
      ((\<exists>hint. loadParams rt h env fs paramsPath = Inl (Missing hint)) \<longleftrightarrow>
       (\<exists>(f, k)\<in>set ENV_KEYS. env k = None \<or> (\<exists>s. env k = Some s \<and> String_trim rt s = []))))"
  using loadParams_missing_source [of rt env fs paramsPath source h]
        loadParams_missing_env [of paramsPath rt h env fs]
  by blast


theorem loadParams_missing_witness:
  "(\<exists>hint. loadParams demo_node demo_hre env_blank empty_fs JUndefined = Inl (Missing hint)) \<and>
   \<not> (\<exists>hint. loadParams demo_node demo_hre demo_env empty_fs JUndefined = Inl (Missing hint)) \<and>
   \<not> (\<exists>hint. loadParams demo_node demo_hre Map.empty params_fs (JStr ''params.json'')
                = Inl (Missing hint))"
proof -
  have 1: "\<exists>(f, k)\<in>set ENV_KEYS. env_blank k = None \<or> (\<exists>s. env_blank k = Some s \<and> String_trim demo_node s = [])"
    by (simp add: ENV_KEYS_def env_blank_def demo_String_trim ascii_trim_def is_space_def)
  have 2: "\<not> (\<exists>(f, k)\<in>set ENV_KEYS. demo_env k = None \<or> (\<exists>s. demo_env k = Some s \<and> String_trim demo_node s = []))"
    by (simp add: ENV_KEYS_def demo_env_def demo_String_trim ascii_trim_def is_space_def addr2_lower_def)
  have src: "resolve_source demo_node Map.empty params_fs (JStr ''params.json'')
      = Inr (JObj demo_params)"
    by (simp add: resolve_source_def readConfigFile_def readFileSync_def params_fs_def
          demo_node_def)
  have conv: "\<forall>f\<in>set REQUIRED_FIELDS. \<forall>v. js_get (JObj demo_params) f = Inr v \<longrightarrow>
                (\<exists>s. ToString demo_node v = Inr s)"
    by (simp add: REQUIRED_FIELDS_def demo_params_def obj_get_def)
  have 3: "\<not> (\<exists>f\<in>set REQUIRED_FIELDS. \<exists>v. js_get (JObj demo_params) f = Inr v \<and>
          (v = JUndefined \<or> v = JNull \<or> (\<exists>s. ToString demo_node v = Inr s \<and> String_trim demo_node s = [])))"
    by (simp add: REQUIRED_FIELDS_def demo_params_def obj_get_def demo_String_trim ascii_trim_def is_space_def
          addr2_def demo_node_def)
  show ?thesis
    using loadParams_missing [of demo_node env_blank empty_fs JUndefined _ demo_hre]
          loadParams_missing [of demo_node demo_env empty_fs JUndefined _ demo_hre]
          loadParams_missing [of demo_node Map.empty params_fs "JStr ''params.json''"
            "JObj demo_params" demo_hre]
          1 2 3 src conv
    by simp
qed


subsection \<open>The deploy task\<close>

lemma switch_network_fields:
  "switch_network h t = (eff0, Inr h') \<Longrightarrow>
   getContractFactory h' = getContractFactory h \<and> (\<forall>x\<in>set eff0. \<exists>n. x = ChangeNetwork n)"
  by (auto simp: switch_network_def split: if_splits option.splits jsval.splits sum.splits)

lemma switch_network_effects:
  "switch_network h t = (eff0, res) \<Longrightarrow> \<forall>x\<in>set eff0. \<exists>n. x = ChangeNetwork n"
  by (auto simp: switch_network_def split: if_splits option.splits jsval.splits sum.splits)

lemma deploy_proxy_effects:
  "deploy_proxy rt h env fs pp = (eff, fs', res) \<Longrightarrow>
   eff = [] \<or> (\<exists>f args. getContractFactory h ''FiatTokenV1'' = Inr f \<and> eff = [DeployProxy f args])"
  by (auto simp: deploy_proxy_def Let_def split: sum.splits list.splits prod.splits)

lemma deploy_proxy_success:
  "deploy_proxy rt h env fs pp = (eff, fs', Inr r) \<Longrightarrow>
   (\<exists>f args. getContractFactory h ''FiatTokenV1'' = Inr f \<and> eff = [DeployProxy f args]) \<and>
   persistDeployment rt fs (network_name h) r = (fs', Inr ()) \<and> network r = network_name h \<and>
   upgradeTxHash r = None \<and> implementationV2 r = None \<and> upgradedAt r = None"
  by (auto simp: deploy_proxy_def Let_def split: sum.splits list.splits prod.splits)

lemma verifyImplementation_effects:
  "\<forall>x\<in>set (verifyImplementation h a). \<exists>b. x = Verify b"
  by (simp add: verifyImplementation_def split: sum.splits)

lemma upgradeToV2_effects:
  "upgradeToV2 rt h fs p r verify = (eff, fs', res) \<Longrightarrow>
   \<forall>x\<in>set eff. (\<exists>f. getContractFactory h ''FiatTokenV2'' = Inr f \<and>
                      x = UpgradeProxy p f ''initializeV2'') \<or> (\<exists>b. x = Verify b)"
  by (auto simp: upgradeToV2_def Let_def verifyImplementation_def
        split: sum.splits option.splits if_splits prod.splits)

lemma upgradeToV2_success:
  "upgradeToV2 rt h fs p r verify = (eff, fs', Inr r') \<Longrightarrow>
   (\<exists>f. getContractFactory h ''FiatTokenV2'' = Inr f \<and>
        UpgradeProxy p f ''initializeV2'' \<in> set eff) \<and>
   (\<exists>a. implementationV2 r' = Some a) \<and> (\<exists>t. upgradedAt r' = Some t) \<and>
   persistDeployment rt fs (network_name h) r' = (fs', Inr ()) \<and>
   network r' = network r \<and> proxy r' = proxy r"
  by (auto simp: upgradeToV2_def Let_def split: sum.splits option.splits if_splits prod.splits)


text \<open>
  Claim C2. In every run of deploy:jpycv2 the proxy is deployed from the factory obtained for
  \<open>FiatTokenV1\<close>, never from another one, and it is deployed whenever the steps before the
  deployment succeed, whatever the flags. \<open>upgradeProxy\<close> is only ever called with the
  \<open>FiatTokenV2\<close> factory and the \<open>initializeV2\<close> call, and only when \<open>v1only\<close> is not
  set; once the proxy is deployed and recorded and the \<open>FiatTokenV2\<close> factory is available
  it is called if and only if \<open>v1only\<close> is not set. A run that returns a record has
  deployed the proxy, has upgraded it if and only if \<open>v1only\<close> is not set, and returns a
  record that has \<open>implementationV2\<close> and \<open>upgradedAt\<close> if and only if \<open>v1only\<close> is
  not set; that record is the latest record of the network.
\<close>

theorem deploy_jpycv2_upgrade:
  assumes run: "deploy_jpycv2 rt h env fs targetNetwork paramsPath verify v1only = (eff, fs', res)"
  shows "(\<forall>f args. DeployProxy f args \<in> set eff \<longrightarrow> getContractFactory h ''FiatTokenV1'' = Inr f) \<and>
         (\<forall>p f c. UpgradeProxy p f c \<in> set eff \<longrightarrow>
            \<not> v1only \<and> getContractFactory h ''FiatTokenV2'' = Inr f \<and> c = ''initializeV2'') \<and>
         (\<forall>r. res = Inr r \<longrightarrow>
            (\<exists>f args. getContractFactory h ''FiatTokenV1'' = Inr f \<and> DeployProxy f args \<in> set eff) \<and>
            ((\<exists>f. UpgradeProxy (proxy r) f ''initializeV2'' \<in> set eff) \<longleftrightarrow> \<not> v1only) \<and>
            ((\<exists>a. implementationV2 r = Some a) \<longleftrightarrow> \<not> v1only) \<and>
            ((\<exists>t. upgradedAt r = Some t) \<longleftrightarrow> \<not> v1only) \<and>
            files fs' (latestFile rt (network r)) = Some (JSON_stringify rt (record_js r))) \<and>
         (\<forall>eff0 h' d ds ps f.
            switch_network h targetNetwork = (eff0, Inr h') \<and> getSigners h' = Inr (d # ds) \<and>
            loadParams rt h' env fs paramsPath = Inr ps \<and>
            getContractFactory h' ''FiatTokenV1'' = Inr f \<longrightarrow>
              DeployProxy f (deploy_args ps) \<in> set eff) \<and>
         (\<forall>eff0 h' eff1 fs1 r0 f2.
            switch_network h targetNetwork = (eff0, Inr h') \<and>
            deploy_proxy rt h' env fs paramsPath = (eff1, fs1, Inr r0) \<and>
            getContractFactory h' ''FiatTokenV2'' = Inr f2 \<longrightarrow>
              (UpgradeProxy (proxy r0) f2 ''initializeV2'' \<in> set eff \<longleftrightarrow> \<not> v1only))"
proof -
  obtain eff0 sw where sw: "switch_network h targetNetwork = (eff0, sw)" by (cases "switch_network h targetNetwork")
  have e0: "\<forall>x\<in>set eff0. \<exists>n. x = ChangeNetwork n" using switch_network_effects [OF sw] .
  show ?thesis
  proof (cases sw)
    case (Inl e)
    with run sw have "eff = eff0" "res = Inl e" by (auto simp: deploy_jpycv2_def)
    with e0 sw Inl show ?thesis by auto
  next
    case (Inr h')
    note sw' = sw [unfolded Inr]
    have gf: "getContractFactory h' = getContractFactory h"
      using switch_network_fields [OF sw'] by simp
    obtain eff1 fs1 res1 where dp: "deploy_proxy rt h' env fs paramsPath = (eff1, fs1, res1)"
      by (cases "deploy_proxy rt h' env fs paramsPath") auto
    have e1: "eff1 = [] \<or> (\<exists>f args. getContractFactory h ''FiatTokenV1'' = Inr f \<and>
                 eff1 = [DeployProxy f args])"
      using deploy_proxy_effects [OF dp] gf by simp
    have reach: "DeployProxy f (deploy_args ps) \<in> set eff1"
      if "getSigners h' = Inr (d # ds)" "loadParams rt h' env fs paramsPath = Inr ps"
         "getContractFactory h' ''FiatTokenV1'' = Inr f" for d ds ps f
      using dp that by (auto simp: deploy_proxy_def Let_def split: sum.splits prod.splits)
    show ?thesis
    proof (cases res1)
      case (Inl e)
      with run sw' dp have "eff = eff0 @ eff1" "res = Inl e"
        by (auto simp: deploy_jpycv2_def)
      with e0 e1 sw' dp Inl reach show ?thesis by auto
    next
      case (Inr r0)
      note dp' = dp [unfolded Inr]
      from deploy_proxy_success [OF dp'] gf
      have s1: "\<exists>f args. getContractFactory h ''FiatTokenV1'' = Inr f \<and> eff1 = [DeployProxy f args]"
        and f1: "persistDeployment rt fs (network_name h') r0 = (fs1, Inr ())"
        and n1: "network r0 = network_name h'"
        and u1: "implementationV2 r0 = None" "upgradedAt r0 = None"
        by auto
      define eff2 where
        "eff2 = (if verify \<and> has_verify_task h'
                 then verifyImplementation h' (implementation r0) else [])"
      have e2: "\<forall>x\<in>set eff2. \<exists>b. x = Verify b"
        using verifyImplementation_effects [of h' "implementation r0"] by (simp add: eff2_def)
      show ?thesis
      proof (cases v1only)
        case True
        with run sw' dp' have r: "eff = eff0 @ eff1 @ eff2" "fs' = fs1" "res = Inr r0"
          by (auto simp: deploy_jpycv2_def Let_def eff2_def)
        have lat: "files fs' (latestFile rt (network r0)) = Some (JSON_stringify rt (record_js r0))"
          using persist_files [OF f1] by (simp add: r n1)
        from r e0 e2 s1 True sw' dp' u1 lat reach show ?thesis
          by auto
      next
        case False
        obtain eff3 fs3 res3 where up: "upgradeToV2 rt h' fs1 (proxy r0) r0 verify = (eff3, fs3, res3)"
          by (cases "upgradeToV2 rt h' fs1 (proxy r0) r0 verify") auto
        with run sw' dp' False have r: "eff = eff0 @ eff1 @ eff2 @ eff3" "fs' = fs3" "res = res3"
          by (auto simp: deploy_jpycv2_def Let_def eff2_def)
        have e3: "\<forall>x\<in>set eff3. (\<exists>f. getContractFactory h ''FiatTokenV2'' = Inr f \<and>
                      x = UpgradeProxy (proxy r0) f ''initializeV2'') \<or> (\<exists>b. x = Verify b)"
          using upgradeToV2_effects [OF up] gf by simp
        have c1: "\<forall>f args. DeployProxy f args \<in> set eff \<longrightarrow> getContractFactory h ''FiatTokenV1'' = Inr f"
          using r e0 e2 e3 s1 by auto
        have c2: "\<forall>p f c. UpgradeProxy p f c \<in> set eff \<longrightarrow>
            \<not> v1only \<and> getContractFactory h ''FiatTokenV2'' = Inr f \<and> c = ''initializeV2''"
          using r e0 e2 e3 s1 False by auto
        have c3: "(\<exists>f args. getContractFactory h ''FiatTokenV1'' = Inr f \<and> DeployProxy f args \<in> set eff) \<and>
            ((\<exists>f. UpgradeProxy (proxy r) f ''initializeV2'' \<in> set eff) \<longleftrightarrow> \<not> v1only) \<and>
            ((\<exists>a. implementationV2 r = Some a) \<longleftrightarrow> \<not> v1only) \<and>
            ((\<exists>t. upgradedAt r = Some t) \<longleftrightarrow> \<not> v1only) \<and>
            files fs' (latestFile rt (network r)) = Some (JSON_stringify rt (record_js r))"
          if "res = Inr r" for r
        proof -
          from that r have up': "upgradeToV2 rt h' fs1 (proxy r0) r0 verify = (eff3, fs3, Inr r)"
            using up by simp
          from upgradeToV2_success [OF up'] have
            a: "\<exists>f. UpgradeProxy (proxy r0) f ''initializeV2'' \<in> set eff3"
            and b: "\<exists>a. implementationV2 r = Some a" "\<exists>t. upgradedAt r = Some t"
            and c: "persistDeployment rt fs1 (network_name h') r = (fs3, Inr ())"
            and d: "network r = network r0" "proxy r = proxy r0"
            by auto
          have lat: "files fs' (latestFile rt (network r)) = Some (JSON_stringify rt (record_js r))"
            using persist_files [OF c] by (simp add: r d n1)
          from a b d lat s1 r False show ?thesis by auto
        qed
        have c4: "DeployProxy f (deploy_args ps) \<in> set eff"
          if "switch_network h targetNetwork = (eff0', Inr h'') \<and> getSigners h'' = Inr (d # ds) \<and>
            loadParams rt h'' env fs paramsPath = Inr ps \<and>
            getContractFactory h'' ''FiatTokenV1'' = Inr f" for eff0' h'' d ds ps f
          using that sw' reach r by auto
        have c5: "UpgradeProxy (proxy r0') f2 ''initializeV2'' \<in> set eff \<longleftrightarrow> \<not> v1only"
          if "switch_network h targetNetwork = (eff0', Inr h'') \<and>
            deploy_proxy rt h'' env fs paramsPath = (eff1', fs1', Inr r0') \<and>
            getContractFactory h'' ''FiatTokenV2'' = Inr f2" for eff0' h'' eff1' fs1' r0' f2
        proof -
          from that sw' dp' have eq: "h'' = h'" "r0' = r0" by auto
          with that have "getContractFactory h' ''FiatTokenV2'' = Inr f2" by simp
          then have "UpgradeProxy (proxy r0) f2 ''initializeV2'' \<in> set eff3"
            using up
            by (auto simp: upgradeToV2_def Let_def split: sum.splits option.splits prod.splits)
          with r eq False show ?thesis by simp
        qed
        from c1 c2 c3 c4 c5 show ?thesis by blast
      qed
    qed
  qed
qed


lemma readFromEnv_demo_env:
  "readFromEnv demo_env =
     JObj [(''name'', JStr ''JPY Coin''), (''symbol'', JStr ''JPYC''), (''currency'', JStr ''JPY''),
           (''decimals'', JStr ''18''), (''minterAdmin'', JStr addr2_lower),
           (''pauser'', JStr addr2_lower), (''blocklister'', JStr addr2_lower),
           (''rescuer'', JStr addr2_lower), (''owner'', JStr addr2_lower)]"
  by (simp add: readFromEnv_def demo_env_def ENV_KEYS_def)

lemma demo_loadParams:
  "loadParams demo_node demo_hre demo_env empty_fs JUndefined = Inr demo_params"
proof -
  have src: "resolve_source demo_node demo_env empty_fs JUndefined = Inr (readFromEnv demo_env)"
    by (simp add: resolve_source_def)
  have chk: "forEach (check_required demo_node False (readFromEnv demo_env))
               REQUIRED_FIELDS = Inr ()"
    by (simp add: readFromEnv_demo_env REQUIRED_FIELDS_def check_required_def obj_get_def
          demo_String_trim ascii_trim_def is_space_def addr2_lower_def)
  have d: "StringToNumber demo_node ''18'' = Fin 18" by (simp add: demo_node_def)
  have ok: "\<not> decimals_rejected (Fin 18)" by (simp add: decimals_rejected_def)
  have t: "String_trim demo_node addr2_lower = addr2_lower"
    "String_trim demo_node ''JPY Coin'' = ''JPY Coin''"
    "String_trim demo_node ''JPYC'' = ''JPYC''" "String_trim demo_node ''JPY'' = ''JPY''"
    by (simp_all add: demo_String_trim ascii_trim_def is_space_def addr2_lower_def)
  have a: "isAddress demo_hre (JStr addr2_lower)" "getAddress demo_hre (JStr addr2_lower) = addr2"
    by (simp_all add: demo_hre_def addr1_def addr1_lower_def addr2_def addr2_lower_def)
  have z: "toLowerCase addr2 \<noteq> ZERO_ADDRESS"
    by (simp add: toLowerCase_def lower_char_def addr2_def ZERO_ADDRESS_def)
  show ?thesis
    by (simp add: loadParams_def src chk Let_def)
       (simp add: readFromEnv_demo_env obj_get_def d ok t a z trim_field_def demo_params_def)
qed

lemma demo_deploy_proxy:
  "deploy_proxy demo_node demo_hre demo_env empty_fs JUndefined
     = ([DeployProxy ''FiatTokenV1'' (deploy_args demo_params)],
        fst (persistDeployment demo_node empty_fs ''hardhat'' demo_record), Inr demo_record)"
proof -
  have h: "getSigners demo_hre = Inr [addr2]"
    "getContractFactory demo_hre ''FiatTokenV1'' = Inr ''FiatTokenV1''"
    "deployProxy demo_hre ''FiatTokenV1'' (deploy_args demo_params)
       = Inr \<lparr>p_address = addr1, p_wait = Inr ''0xdeploy''\<rparr>"
    "getImplementationAddress demo_hre 0 addr1 = Inr addr2"
    "network_name demo_hre = ''hardhat''"
    by (simp_all add: demo_hre_def)
  have t: "Date_toISOString demo_node 0 = ''2024-01-01T00:00:00.000Z''"
    by (simp add: demo_node_def)
  have r: "\<lparr>network = ''hardhat'', deployedAt = ''2024-01-01T00:00:00.000Z'', deployer = addr2,
            txHash = ''0xdeploy'', proxy = addr1, implementation = addr2, params = demo_params,
            upgradeTxHash = None, implementationV2 = None, upgradedAt = None\<rparr> = demo_record"
    by (simp add: demo_record_def)
  have ok: "snd (persistDeployment demo_node empty_fs ''hardhat'' demo_record) = Inr ()"
    by (rule demo_persist) (simp_all add: empty_fs_def demo_record_def)
  show ?thesis
    by (simp add: deploy_proxy_def demo_loadParams h t r Let_def split_beta ok)
qed

lemma demo_upgradeToV2:
  "upgradeToV2 demo_node demo_hre
     (fst (persistDeployment demo_node empty_fs ''hardhat'' demo_record)) addr1 demo_record False
     = ([UpgradeProxy addr1 ''FiatTokenV2'' ''initializeV2''],
        fst (persistDeployment demo_node
               (fst (persistDeployment demo_node empty_fs ''hardhat'' demo_record))
               ''hardhat'' demo_record_v2),
        Inr demo_record_v2)"
proof -
  let ?fs1 = "fst (persistDeployment demo_node empty_fs ''hardhat'' demo_record)"
  have h: "getContractFactory demo_hre ''FiatTokenV2'' = Inr ''FiatTokenV2''"
    "upgradeProxy demo_hre addr1 ''FiatTokenV2'' = Inr \<lparr>u_wait = Some (Inr ''0xupgrade'')\<rparr>"
    "getImplementationAddress demo_hre (Suc 0) addr1 = Inr addr2_lower"
    "network_name demo_hre = ''hardhat''"
    by (simp_all add: demo_hre_def)
  have t: "Date_toISOString demo_node (Suc 0) = ''2024-01-01T00:01:00.000Z''"
    by (simp add: demo_node_def)
  have r: "demo_record\<lparr>upgradeTxHash := Some ''0xupgrade'',
                        implementationV2 := Some addr2_lower,
                        upgradedAt := Some ''2024-01-01T00:01:00.000Z''\<rparr> = demo_record_v2"
    by (simp add: demo_record_v2_def)
  have fs1: "dirs ?fs1 \<subseteq> {''/repo/deployments''}" "files ?fs1 ''/repo/deployments'' = None"
    using demo_persist(2,3) [of empty_fs demo_record]
    by (simp_all add: empty_fs_def demo_record_def)
  have ok: "snd (persistDeployment demo_node ?fs1 ''hardhat'' demo_record_v2) = Inr ()"
    by (rule demo_persist [OF fs1]) (simp add: demo_record_v2_def demo_record_def)
  show ?thesis
    by (simp add: upgradeToV2_def h t r Let_def split_beta ok)
qed

theorem deploy_jpycv2_upgrade_witness:
  "deploy_jpycv2 demo_node demo_hre demo_env empty_fs JUndefined JUndefined False False
     = ([DeployProxy ''FiatTokenV1'' (deploy_args demo_params),
         UpgradeProxy addr1 ''FiatTokenV2'' ''initializeV2''],
        fst (persistDeployment demo_node
               (fst (persistDeployment demo_node empty_fs ''hardhat'' demo_record))
               ''hardhat'' demo_record_v2),
        Inr demo_record_v2) \<and>
   deploy_jpycv2 demo_node demo_hre demo_env empty_fs JUndefined JUndefined False True
     = ([DeployProxy ''FiatTokenV1'' (deploy_args demo_params)],
        fst (persistDeployment demo_node empty_fs ''hardhat'' demo_record), Inr demo_record) \<and>
   implementationV2 demo_record_v2 = Some addr2_lower \<and>
   implementationV2 demo_record = None"
proof -
  have sw: "switch_network demo_hre JUndefined = ([], Inr demo_hre)"
    by (simp add: switch_network_def)
  have p: "proxy demo_record = addr1" by (simp add: demo_record_def)
  have run1: "deploy_jpycv2 demo_node demo_hre demo_env empty_fs JUndefined JUndefined False False
     = ([DeployProxy ''FiatTokenV1'' (deploy_args demo_params),
         UpgradeProxy addr1 ''FiatTokenV2'' ''initializeV2''],
        fst (persistDeployment demo_node
               (fst (persistDeployment demo_node empty_fs ''hardhat'' demo_record))
               ''hardhat'' demo_record_v2),
        Inr demo_record_v2)"
    by (simp add: deploy_jpycv2_def sw demo_deploy_proxy p demo_upgradeToV2)
  have run2: "deploy_jpycv2 demo_node demo_hre demo_env empty_fs JUndefined JUndefined False True
     = ([DeployProxy ''FiatTokenV1'' (deploy_args demo_params)],
        fst (persistDeployment demo_node empty_fs ''hardhat'' demo_record), Inr demo_record)"
    by (simp add: deploy_jpycv2_def sw demo_deploy_proxy)
  have i: "implementationV2 demo_record_v2 = Some addr2_lower" "implementationV2 demo_record = None"
    by (simp_all add: demo_record_v2_def demo_record_def)
  show ?thesis
    using deploy_jpycv2_upgrade [OF run1] deploy_jpycv2_upgrade [OF run2] run1 run2 i
    by simp
qed

end
